theory Spec2Isabelle
  imports Main "HOL-Library.Sublist"
begin

section \<open>Python values and the string operations the archiver uses\<close>

text \<open>
  The feed is JSON. A decoded JSON document is a value of \<open>json\<close>; a Python \<open>dict\<close> is an
  association list in insertion order, read with \<open>dict_get\<close> and written with \<open>dict_set\<close>.
  JSON numbers with a fraction are not represented. Strings are Isabelle strings.
\<close>

datatype json =
    JNull
  | JBool bool
  | JInt int
  | JStr string
  | JArr "json list"
  | JObj "(string \<times> json) list"

type_synonym dict = "(string \<times> json) list"

text \<open>The two exception classes the handlers of the source tell apart:
  \<open>except Exception\<close> catches \<open>Exception\<close> and lets \<open>KeyboardInterrupt\<close> through.\<close>

datatype exn = KeyboardInterrupt | Exception

text \<open>Python truthiness, as tested by \<open>if x:\<close>.\<close>

fun truthy :: "json \<Rightarrow> bool" where
  "truthy JNull = False"
| "truthy (JBool b) = b"
| "truthy (JInt i) = (i \<noteq> 0)"
| "truthy (JStr s) = (s \<noteq> [])"
| "truthy (JArr xs) = (xs \<noteq> [])"
| "truthy (JObj kvs) = (kvs \<noteq> [])"

definition dict_get :: "dict \<Rightarrow> string \<Rightarrow> json option" where
  "dict_get d k = map_of d k"

text \<open>\<open>d.get(k)\<close>: the value, or \<open>None\<close> (here \<open>JNull\<close>) when the key is absent.\<close>

definition dict_get_none :: "dict \<Rightarrow> string \<Rightarrow> json" where
  "dict_get_none d k = (case dict_get d k of None \<Rightarrow> JNull | Some v \<Rightarrow> v)"

text \<open>\<open>d.get(k, default)\<close>.\<close>

definition dict_get_default :: "dict \<Rightarrow> string \<Rightarrow> json \<Rightarrow> json" where
  "dict_get_default d k dflt = (case dict_get d k of None \<Rightarrow> dflt | Some v \<Rightarrow> v)"

text \<open>\<open>d[k] = v\<close>: an existing key keeps its position, a new key goes last.\<close>

fun dict_set :: "string \<Rightarrow> json \<Rightarrow> dict \<Rightarrow> dict" where
  "dict_set k v [] = [(k, v)]"
| "dict_set k v (p # ps) = (if fst p = k then (k, v) # ps else p # dict_set k v ps)"

text \<open>\<open>sub in s\<close> on strings.\<close>

fun contains :: "string \<Rightarrow> string \<Rightarrow> bool" where
  "contains sub [] = (sub = [])"
| "contains sub (c # cs) = (prefix sub (c # cs) \<or> contains sub cs)"

text \<open>\<open>s.replace(old, new)\<close>: every non-overlapping occurrence, from the left.\<close>

function replace :: "string \<Rightarrow> string \<Rightarrow> string \<Rightarrow> string" where
  "replace old new [] = (if old = [] then new else [])"
| "replace old new (c # cs) =
     (if old = [] then new @ c # replace old new cs
      else if prefix old (c # cs) then new @ replace old new (drop (length old) (c # cs))
      else c # replace old new cs)"
  by pat_completeness auto
termination
  by (relation "measure (\<lambda>(old, new, s). length s)") auto

text \<open>\<open>needle in x\<close> for a string needle: substring of a string, element of a list, key of
  a dict; \<open>TypeError\<close> (here \<open>None\<close>) on \<open>None\<close>, booleans and numbers.\<close>

fun py_in :: "string \<Rightarrow> json \<Rightarrow> bool option" where
  "py_in needle (JStr s) = Some (contains needle s)"
| "py_in needle (JArr xs) = Some (JStr needle \<in> set xs)"
| "py_in needle (JObj kvs) = Some (dict_get kvs needle \<noteq> None)"
| "py_in needle v = None"

text \<open>\<open>str(n)\<close> for a natural number and for an integer.\<close>

definition digit_char :: "nat \<Rightarrow> char" where
  "digit_char d = ''0123456789'' ! d"

fun str_nat :: "nat \<Rightarrow> string" where
  "str_nat n =
     (if n < 10 then [digit_char n] else str_nat (n div 10) @ [digit_char (n mod 10)])"

declare str_nat.simps [simp del]

definition str_int :: "int \<Rightarrow> string" where
  "str_int i = (if i < 0 then CHR ''-'' # str_nat (nat (- i)) else str_nat (nat i))"

section \<open>get_feed: the structured payload\<close>

text \<open>
  \<open>activity['media'][k] = v\<close>. The subscript assignment raises \<open>TypeError\<close> (here
  \<open>None\<close>) when \<open>activity['media']\<close> is not a dict.
\<close>

definition set_media :: "string \<Rightarrow> json \<Rightarrow> dict \<Rightarrow> dict option" where
  "set_media k v a =
     (case dict_get a ''media'' of
        Some (JObj m) \<Rightarrow> Some (dict_set ''media'' (JObj (dict_set k v m)) a)
      | _ \<Rightarrow> None)"

text \<open>
  The branch that chooses \<open>media['video_url']\<close> (source lines 439 to 450). \<open>None\<close> is an
  exception raised on the way; \<open>Some a\<close> is the activity after the branch.
\<close>

definition set_video_url :: "json \<Rightarrow> json \<Rightarrow> dict \<Rightarrow> dict option" where
  "set_video_url downloadable_url streamable_url a =
     (if truthy downloadable_url then set_media ''video_url'' downloadable_url a
      else if truthy streamable_url then
        (case py_in ''playlist.m3u8'' streamable_url of
           None \<Rightarrow> None
         | Some True \<Rightarrow>
             (case streamable_url of
                JStr s \<Rightarrow> set_media ''video_url'' (JStr (replace ''playlist.m3u8'' ''video.mp4'' s)) a
              | _ \<Rightarrow> None)
         | Some False \<Rightarrow> set_media ''video_url'' streamable_url a)
      else Some a)"

text \<open>
  The body of the loop over the activities of a JSON page (source lines 420 to 457). The
  whole body sits in \<open>try ... except Exception\<close>, which logs and goes on: an exception
  leaves the activity as it was mutated up to that point.
\<close>

definition process_video_info :: "json \<Rightarrow> json" where
  "process_video_info activity =
     (case activity of
        JObj a \<Rightarrow>
          (case dict_get a ''video_info'' of
             Some (JObj video_info) \<Rightarrow>
               (let streamable_url = dict_get_none video_info ''streamable_url'';
                    downloadable_url = dict_get_none video_info ''downloadable_url'';
                    thumbnail_url = dict_get_none video_info ''thumbnail_url''
                in if video_info \<noteq> [] \<and>
                      (truthy streamable_url \<or> truthy downloadable_url \<or> truthy thumbnail_url)
                   then
                     (let a1 = (if dict_get_none a ''media'' = JNull
                                then dict_set ''media'' (JObj []) a else a)
                      in case set_video_url downloadable_url streamable_url a1 of
                           None \<Rightarrow> JObj a1
                         | Some a2 \<Rightarrow>
                             if truthy thumbnail_url
                             then (case set_media ''video_thumbnail_url'' thumbnail_url a2 of
                                     None \<Rightarrow> JObj a2
                                   | Some a3 \<Rightarrow> JObj a3)
                             else JObj a2)
                   else JObj a)
           | _ \<Rightarrow> JObj a)
      | _ \<Rightarrow> activity)"

text \<open>\<open>media.get('video_url')\<close> of an activity, as \<open>process_feed_entry\<close> reads it.\<close>

definition video_url_of :: "json \<Rightarrow> json option" where
  "video_url_of activity =
     (case activity of
        JObj a \<Rightarrow> (case dict_get a ''media'' of Some (JObj m) \<Rightarrow> dict_get m ''video_url'' | _ \<Rightarrow> None)
      | _ \<Rightarrow> None)"


text \<open>
  The JSON body of the activities endpoint, \<open>{activities, count, page, page_size}\<close>.
  \<open>feed_activities\<close> is the list under \<open>activities\<close> (empty when the key is
  absent); the three numbers are integers, \<open>None\<close> when the key is absent.
\<close>

record feed_json =
  feed_activities :: "json list"
  feed_count :: "int option"
  feed_page :: "int option"
  feed_page_size :: "int option"

definition get_int :: "int option \<Rightarrow> int \<Rightarrow> int" where
  "get_int v dflt = (case v of None \<Rightarrow> dflt | Some i \<Rightarrow> i)"

text \<open>
  The JSON branch of \<open>get_feed\<close> (source lines 413 to 462): the dict it returns has the
  two keys \<open>entries\<close> and \<open>has_more\<close> and no other.
\<close>

definition json_feed :: "feed_json \<Rightarrow> dict" where
  "json_feed data =
     [(''entries'', JArr (map process_video_info (feed_activities data))),
      (''has_more'',
         JBool (get_int (feed_count data) 0 > get_int (feed_page data) 1 * get_int (feed_page_size data) 10))]"

section \<open>get_feed: the markup payload\<close>

text \<open>
  A parsed HTML document is the list of its top-level elements. An element has a tag name
  (lower case), its list of classes, its other attributes and its child elements.
\<close>

datatype element =
  Element (tag: string) (classes: "string list") (attrs: "(string \<times> string) list")
    (children: "element list")

text \<open>\<open>tag.get(name, '')\<close>.\<close>

definition attr_get :: "element \<Rightarrow> string \<Rightarrow> string" where
  "attr_get e name = (case map_of (attrs e) name of None \<Rightarrow> [] | Some v \<Rightarrow> v)"

text \<open>\<open>find_all(t, class_=c)\<close>: every element below the root with that tag and that class,
  in document order.\<close>

fun find_all :: "string \<Rightarrow> string \<Rightarrow> element \<Rightarrow> element list" where
  "find_all t c (Element tg cls ats ch) =
     (if tg = t \<and> c \<in> set cls then [Element tg cls ats ch] else [])
       @ concat (map (find_all t c) ch)"

text \<open>
  The loop over the video posters (source lines 469 to 484). For a poster whose style
  mentions \<open>background-image\<close> the body raises before it appends anything:
  \<open>IndexError\<close> at the split when the style holds no \<open>url("\<close>, and otherwise
  \<open>NameError\<close> at \<open>uuid.uuid4()\<close>, because the module never imports \<open>uuid\<close>.
  \<open>None\<close> is that exception.
\<close>

fun poster_entries :: "element list \<Rightarrow> json list option" where
  "poster_entries [] = Some []"
| "poster_entries (poster # posters) =
     (if contains ''background-image'' (attr_get poster ''style'') then None
      else poster_entries posters)"

text \<open>The markup branch of \<open>get_feed\<close> (source lines 463 to 489).\<close>

definition html_feed :: "element list \<Rightarrow> dict option" where
  "html_feed soup =
     (let video_posters = concat (map (find_all ''div'' ''video-react-poster'') soup)
      in case poster_entries video_posters of
           None \<Rightarrow> None
         | Some entries \<Rightarrow> Some [(''entries'', JArr entries), (''has_more'', JBool False)])"

text \<open>
  CSS selection as \<open>_parse_feed_html\<close> uses it. A simple selector constrains the tag, the
  class, or both; a complex selector is a chain of simple selectors joined by the
  descendant combinator; a selector group is a list of complex selectors.
\<close>

record simple_selector =
  sel_tag :: "string option"
  sel_class :: "string option"

definition matches_simple :: "simple_selector \<Rightarrow> element \<Rightarrow> bool" where
  "matches_simple s e =
     ((case sel_tag s of None \<Rightarrow> True | Some t \<Rightarrow> tag e = t) \<and>
      (case sel_class s of None \<Rightarrow> True | Some c \<Rightarrow> c \<in> set (classes e)))"

text \<open>The ancestors are listed nearest first, the selectors of the chain innermost first.\<close>

fun matches_ancestors :: "simple_selector list \<Rightarrow> element list \<Rightarrow> bool" where
  "matches_ancestors [] ancestors = True"
| "matches_ancestors (s # ss) [] = False"
| "matches_ancestors (s # ss) (a # ancestors) =
     ((matches_simple s a \<and> matches_ancestors ss ancestors) \<or>
      matches_ancestors (s # ss) ancestors)"

definition matches_complex :: "simple_selector list \<Rightarrow> element list \<Rightarrow> element \<Rightarrow> bool" where
  "matches_complex chain ancestors e =
     (case rev chain of
        [] \<Rightarrow> False
      | s # ss \<Rightarrow> matches_simple s e \<and> matches_ancestors ss ancestors)"

fun select_below :: "simple_selector list list \<Rightarrow> element list \<Rightarrow> element \<Rightarrow> element list" where
  "select_below grp ancestors (Element tg cls ats ch) =
     (if list_ex (\<lambda>chain. matches_complex chain ancestors (Element tg cls ats ch)) grp
      then [Element tg cls ats ch] else [])
       @ concat (map (select_below grp (Element tg cls ats ch # ancestors)) ch)"

definition select_one :: "simple_selector list list \<Rightarrow> element list \<Rightarrow> element option" where
  "select_one grp soup =
     (case concat (map (select_below grp []) soup) of [] \<Rightarrow> None | e # es \<Rightarrow> Some e)"

definition by_class :: "string \<Rightarrow> simple_selector" where
  "by_class c = \<lparr>sel_tag = None, sel_class = Some c\<rparr>"

definition by_tag_class :: "string \<Rightarrow> string \<Rightarrow> simple_selector" where
  "by_tag_class t c = \<lparr>sel_tag = Some t, sel_class = Some c\<rparr>"

text \<open>
  The "next page" check of \<open>_parse_feed_html\<close> (source lines 572 to 574):
  \<open>soup.select_one('.next-page, .load-more, .pagination a.next')\<close>, then \<open>has_more\<close> is
  set when an element was found. No function of the module calls \<open>_parse_feed_html\<close>.
\<close>

definition next_page :: "element list \<Rightarrow> element option" where
  "next_page soup =
     select_one [[by_class ''next-page''], [by_class ''load-more''],
                 [by_class ''pagination'', by_tag_class ''a'' ''next'']] soup"

definition parse_feed_html_has_more :: "element list \<Rightarrow> bool" where
  "parse_feed_html_has_more soup = (next_page soup \<noteq> None)"


section \<open>Dates, library functions and the outside world\<close>

record datetime =
  year :: nat
  month :: nat
  day :: nat
  hour :: nat
  minute :: nat
  second :: nat

text \<open>A number in decimal, padded with zeros to at least \<open>w\<close> digits.\<close>

definition pad :: "nat \<Rightarrow> nat \<Rightarrow> string" where
  "pad w n = replicate (w - length (str_nat n)) CHR ''0'' @ str_nat n"

text \<open>\<open>strftime('%Y-%m-%d-%H-%M')\<close> and \<open>strftime('%Y-%m-%d-%H-%M-%S')\<close>.\<close>

definition strftime_minute :: "datetime \<Rightarrow> string" where
  "strftime_minute d =
     pad 4 (year d) @ ''-'' @ pad 2 (month d) @ ''-'' @ pad 2 (day d) @ ''-'' @
     pad 2 (hour d) @ ''-'' @ pad 2 (minute d)"

definition strftime_second :: "datetime \<Rightarrow> string" where
  "strftime_second d = strftime_minute d @ ''-'' @ pad 2 (second d)"

text \<open>\<open>os.path.basename\<close>: what follows the last slash.\<close>

definition basename :: "string \<Rightarrow> string" where
  "basename p = rev (takeWhile (\<lambda>c. c \<noteq> CHR ''/'') (rev p))"

text \<open>\<open>directory / name\<close> for a relative name.\<close>

definition path_join :: "string \<Rightarrow> string \<Rightarrow> string" where
  "path_join directory name = directory @ ''/'' @ name"

text \<open>
  Functions of the Python library that the archiver calls and that are the same in every
  run. They are parameters of the model:
  \<open>url_path url\<close> is \<open>unquote(urlparse(url).path)\<close>, \<open>None\<close> when \<open>urlparse\<close> raises
  \<open>ValueError\<close>; \<open>json_dumps\<close> is \<open>json.dumps\<close>; \<open>fromisoformat\<close> is
  \<open>datetime.fromisoformat\<close>, \<open>None\<close> when it raises \<open>ValueError\<close>; \<open>isoformat\<close> is
  \<open>datetime.isoformat\<close>; \<open>lower\<close> is \<open>str.lower\<close>; \<open>repr\<close> is \<open>str()\<close> of a list or
  dict.
\<close>

record pylib =
  url_path :: "string \<Rightarrow> string option"
  json_dumps :: "json \<Rightarrow> string"
  fromisoformat :: "string \<Rightarrow> datetime option"
  isoformat :: "datetime \<Rightarrow> string"
  lower :: "string \<Rightarrow> string"
  repr :: "json \<Rightarrow> string"

text \<open>What a streaming fetch of a media URL does inside the \<open>try\<close> of \<open>download_media\<close>:
  it raises before the destination file is opened; it raises after the file was opened,
  leaving the bytes written so far; or it runs to its end.\<close>

datatype fetch_outcome =
    Fails exn
  | FailsMidway exn string
  | Completes string

text \<open>What \<open>open(path, 'w')\<close> followed by \<open>json.dump\<close> does: it writes the document;
  it raises before the file is opened; or it raises after the file was truncated.\<close>

datatype write_outcome =
    Written
  | WriteFails exn
  | WriteFailsMidway exn

text \<open>The answer to one request for a feed page: the request raises (network error,
  error status, undecodable body), or it brings a JSON body, or a markup body.\<close>

datatype feed_response =
    FeedRaises exn
  | FeedJson feed_json
  | FeedHtml "element list"

text \<open>
  The outside world of one process. Every blocking operation (a feed request, a media
  fetch, a file write, a sleep) is one step; what the world answers may depend on the step
  at which it is asked. \<open>str_hash\<close> is the built-in \<open>hash\<close> on strings, which Python
  salts per process. \<open>time_at\<close> is \<open>int(time.time())\<close> and \<open>now_at\<close> is
  \<open>datetime.now()\<close>, read at a step; reading the clock is not a step of its own, so
  the clock stands still between two blocking operations. \<open>sleep_at\<close> tells whether
  \<open>time.sleep\<close> is interrupted. The feed answers for a student and a page number; the
  date range of a run is fixed, so it is not an argument.
\<close>

record env =
  str_hash :: "string \<Rightarrow> int"
  time_at :: "nat \<Rightarrow> nat"
  now_at :: "nat \<Rightarrow> datetime"
  feed_at :: "nat \<Rightarrow> string \<Rightarrow> nat \<Rightarrow> feed_response"
  media_at :: "nat \<Rightarrow> string \<Rightarrow> fetch_outcome"
  write_at :: "nat \<Rightarrow> string \<Rightarrow> write_outcome"
  sleep_at :: "nat \<Rightarrow> bool"

section \<open>The archive and the state of the archiver\<close>

record download_record =
  dl_filename :: string
  dl_original_url :: string
  dl_type :: string
  dl_url_type :: string

record processed_entry =
  pe_id :: json
  pe_original_data :: json
  pe_processed_timestamp :: string
  pe_downloaded_media :: "download_record list"

text \<open>\<open>total_entries_available\<close> is \<open>None\<close> when the Python value is \<open>None\<close>.\<close>

record subject_index =
  idx_student_id :: string
  idx_student_name :: string
  total_entries_scraped :: nat
  total_entries_available :: "json option"
  pages_scraped :: nat
  scraped_date :: string
  idx_entries :: "processed_entry list"

datatype content =
    Media string
  | EntryDoc processed_entry
  | IndexDoc subject_index
  | Truncated

text \<open>\<open>download_history.json\<close>: absent, present but not loadable, or a JSON array of
  URL strings (its order does not matter, the loader makes a set of it).\<close>

datatype history_file =
    NoFile
  | Unreadable
  | History "string set"

datatype log_event =
    HistoryLoadWarning
  | HistorySaveWarning
  | FeedError
  | NoValidFeedWarning nat
  | EventDateWarning
  | DownloadError string string
  | Downloaded string
  | EntryError
  | Interrupted

text \<open>
  \<open>files\<close> is the archive tree, \<open>history_file\<close> the history on disk and
  \<open>downloaded_files\<close> the history in memory. \<open>requests\<close> lists the URLs that
  \<open>download_media\<close> asked the network for, \<open>completed\<close> the URLs whose fetch ran to its
  end, \<open>feed_requests\<close> the feed pages asked for, each in order.
\<close>

record world =
  files :: "string \<rightharpoonup> content"
  history_file :: history_file
  downloaded_files :: "string set"
  requests :: "string list"
  completed :: "string list"
  feed_requests :: "nat list"
  log :: "log_event list"
  step :: nat

definition history_path :: string where
  "history_path = ''download_history.json''"

section \<open>The download history\<close>

text \<open>\<open>_load_download_history\<close> (source lines 132 to 140).\<close>

definition load_download_history :: "world \<Rightarrow> world" where
  "load_download_history w =
     (case history_file w of
        NoFile \<Rightarrow> w
      | Unreadable \<Rightarrow> w\<lparr>log := log w @ [HistoryLoadWarning]\<rparr>
      | History urls \<Rightarrow> w\<lparr>downloaded_files := urls\<rparr>)"

text \<open>The constructor sets \<open>downloaded_files = set()\<close> and then loads the history
  (source lines 85 to 87).\<close>

definition init_download_history :: "world \<Rightarrow> world" where
  "init_download_history w = load_download_history (w\<lparr>downloaded_files := {}\<rparr>)"

text \<open>\<open>_save_download_history\<close> (source lines 142 to 149). Its handler catches
  \<open>Exception\<close> only.\<close>

definition save_download_history :: "env \<Rightarrow> world \<Rightarrow> (exn + unit) \<times> world" where
  "save_download_history env w =
     (let w1 = w\<lparr>step := Suc (step w)\<rparr>
      in case write_at env (step w) history_path of
           Written \<Rightarrow> (Inr (), w1\<lparr>history_file := History (downloaded_files w)\<rparr>)
         | WriteFails Exception \<Rightarrow> (Inr (), w1\<lparr>log := log w @ [HistorySaveWarning]\<rparr>)
         | WriteFailsMidway Exception \<Rightarrow>
             (Inr (), w1\<lparr>history_file := Unreadable, log := log w @ [HistorySaveWarning]\<rparr>)
         | WriteFails KeyboardInterrupt \<Rightarrow> (Inl KeyboardInterrupt, w1)
         | WriteFailsMidway KeyboardInterrupt \<Rightarrow>
             (Inl KeyboardInterrupt, w1\<lparr>history_file := Unreadable\<rparr>))"

section \<open>download_media\<close>

text \<open>
  The file name (source lines 582 to 596). \<open>None\<close> stands for the \<open>ValueError\<close> of
  \<open>urlparse\<close>.
\<close>

definition timestamped_file_name ::
  "pylib \<Rightarrow> env \<Rightarrow> string \<Rightarrow> string \<Rightarrow> datetime option \<Rightarrow> world \<Rightarrow> string option" where
  "timestamped_file_name lib env url media_type event_date w =
     (case url_path lib url of
        None \<Rightarrow> None
      | Some file_path \<Rightarrow>
          (let base_file_name = basename file_path;
               base_file_name =
                 (if base_file_name = [] \<or> CHR ''.'' \<notin> set base_file_name
                  then ''media_'' @ str_nat (time_at env (step w)) @ ''_'' @
                       str_int (str_hash env url mod 10000) @ ''.'' @ media_type
                  else base_file_name);
               ts_prefix =
                 (case event_date of
                    Some d \<Rightarrow> strftime_minute d
                  | None \<Rightarrow> strftime_minute (now_at env (step w)))
           in Some (ts_prefix @ ''-'' @ base_file_name)))"

text \<open>
  \<open>download_media\<close> (source lines 579 to 646). The result is \<open>Inr (Some name)\<close> for a
  returned file name, \<open>Inr None\<close> for the \<open>None\<close> it returns after a failed fetch, and
  \<open>Inl\<close> for an exception that leaves the function.
\<close>

definition download_media ::
  "pylib \<Rightarrow> env \<Rightarrow> string \<Rightarrow> string \<Rightarrow> datetime option \<Rightarrow> string \<Rightarrow> world
     \<Rightarrow> (exn + string option) \<times> world" where
  "download_media lib env url media_type event_date output_dir w =
     (case timestamped_file_name lib env url media_type event_date w of
        None \<Rightarrow> (Inl Exception, w)
      | Some timestamped \<Rightarrow>
          (let output_path = path_join output_dir timestamped
           in if output_path \<in> dom (files w)
              then (Inr (Some timestamped), w\<lparr>downloaded_files := insert url (downloaded_files w)\<rparr>)
              else if url \<in> downloaded_files w
              then (Inr (Some timestamped), w)
              else
                (let w1 = w\<lparr>requests := requests w @ [url], step := Suc (step w)\<rparr>
                 in case media_at env (step w) url of
                      Fails KeyboardInterrupt \<Rightarrow> (Inl KeyboardInterrupt, w1)
                    | Fails Exception \<Rightarrow>
                        (Inr None, w1\<lparr>log := log w @ [DownloadError url timestamped]\<rparr>)
                    | FailsMidway KeyboardInterrupt partial \<Rightarrow>
                        (Inl KeyboardInterrupt,
                         w1\<lparr>files := (files w)(output_path \<mapsto> Media partial)\<rparr>)
                    | FailsMidway Exception partial \<Rightarrow>
                        (Inr None,
                         w1\<lparr>files := (files w)(output_path \<mapsto> Media partial),
                            log := log w @ [DownloadError url timestamped]\<rparr>)
                    | Completes body \<Rightarrow>
                        (case save_download_history env
                                (w1\<lparr>files := (files w)(output_path \<mapsto> Media body),
                                    downloaded_files := insert url (downloaded_files w),
                                    completed := completed w @ [url]\<rparr>) of
                           (Inl e, w2) \<Rightarrow> (Inl e, w2)
                         | (Inr u, w2) \<Rightarrow>
                             (Inr (Some timestamped),
                              w2\<lparr>log := log w2 @ [Downloaded timestamped]\<rparr>)))))"


section \<open>process_feed_entry\<close>

text \<open>The entry id (source line 652): the value under \<open>object_id\<close>, and when the key
  is absent the string of \<open>hash(json.dumps(entry)) % 10000\<close>.\<close>

definition derive_entry_id :: "pylib \<Rightarrow> env \<Rightarrow> dict \<Rightarrow> json" where
  "derive_entry_id lib env entry =
     dict_get_default entry ''object_id''
       (JStr (str_int (str_hash env (json_dumps lib (JObj entry)) mod 10000)))"

text \<open>
  The event date (source lines 655 to 662). A value under \<open>event_date\<close> that is truthy
  and not a string has no \<open>replace\<close>: the \<open>AttributeError\<close> is not a \<open>ValueError\<close> and
  leaves the function.
\<close>

definition parse_event_date ::
  "pylib \<Rightarrow> env \<Rightarrow> dict \<Rightarrow> world \<Rightarrow> (exn + datetime option) \<times> world" where
  "parse_event_date lib env entry w =
     (let event_date_str = dict_get_none entry ''event_date''
      in if truthy event_date_str then
           (case event_date_str of
              JStr s \<Rightarrow>
                (case fromisoformat lib (replace ''Z'' ''+00:00'' s) of
                   Some d \<Rightarrow> (Inr (Some d), w)
                 | None \<Rightarrow>
                     (Inr (Some (now_at env (step w))), w\<lparr>log := log w @ [EventDateWarning]\<rparr>))
            | _ \<Rightarrow> (Inl Exception, w))
         else (Inr None, w))"

text \<open>
  One media reference (source lines 679 to 690, and the same shape at 696 to 706 and 708 to
  718): read the URL under \<open>key\<close>, download it when it is truthy, and append a record when
  \<open>download_media\<close> returned a truthy name. \<open>urlparse\<close> raises on a truthy value that is not
  a string.
\<close>

definition download_ref ::
  "pylib \<Rightarrow> env \<Rightarrow> dict \<Rightarrow> datetime option \<Rightarrow> string \<times> string \<times> string
     \<Rightarrow> download_record list \<Rightarrow> world \<Rightarrow> (exn + download_record list) \<times> world" where
  "download_ref lib env media event_date ref records w =
     (case ref of (key, media_type, output_dir) \<Rightarrow>
        (let media_url = dict_get_none media key
         in if truthy media_url then
              (case media_url of
                 JStr url \<Rightarrow>
                   (case download_media lib env url media_type event_date output_dir w of
                      (Inl e, w1) \<Rightarrow> (Inl e, w1)
                    | (Inr None, w1) \<Rightarrow> (Inr records, w1)
                    | (Inr (Some downloaded_file), w1) \<Rightarrow>
                        (if downloaded_file \<noteq> []
                         then (Inr (records @
                                 [\<lparr>dl_filename = downloaded_file, dl_original_url = url,
                                   dl_type = media_type, dl_url_type = key\<rparr>]), w1)
                         else (Inr records, w1)))
               | _ \<Rightarrow> (Inl Exception, w))
            else (Inr records, w)))"

fun download_refs ::
  "pylib \<Rightarrow> env \<Rightarrow> dict \<Rightarrow> datetime option \<Rightarrow> (string \<times> string \<times> string) list
     \<Rightarrow> download_record list \<Rightarrow> world \<Rightarrow> (exn + download_record list) \<times> world" where
  "download_refs lib env media event_date [] records w = (Inr records, w)"
| "download_refs lib env media event_date (ref # refs) records w =
     (case download_ref lib env media event_date ref records w of
        (Inl e, w1) \<Rightarrow> (Inl e, w1)
      | (Inr records1, w1) \<Rightarrow> download_refs lib env media event_date refs records1 w1)"

text \<open>The references of an entry in the order the source visits them: the loop over
  \<open>image_url\<close> and \<open>thumbnail_url\<close>, then the video thumbnail, then the video.\<close>

definition media_refs :: "string \<Rightarrow> string \<Rightarrow> (string \<times> string \<times> string) list" where
  "media_refs child_images_dir child_videos_dir =
     [(''image_url'', ''image'', child_images_dir),
      (''thumbnail_url'', ''image'', child_images_dir),
      (''video_thumbnail_url'', ''image'', child_images_dir),
      (''video_url'', ''video'', child_videos_dir)]"

text \<open>\<open>str(v)\<close> as the f-string formats the entry id.\<close>

definition format_json :: "pylib \<Rightarrow> json \<Rightarrow> string" where
  "format_json lib v =
     (case v of
        JStr s \<Rightarrow> s
      | JInt i \<Rightarrow> str_int i
      | JBool b \<Rightarrow> (if b then ''True'' else ''False'')
      | JNull \<Rightarrow> ''None''
      | _ \<Rightarrow> repr lib v)"

text \<open>
  The name of the entry file (source lines 721 to 727). \<open>None\<close> stands for the
  \<open>AttributeError\<close> raised when \<open>actor\<close> is not a dict or a name is not a string.
\<close>

definition entry_file_name ::
  "pylib \<Rightarrow> env \<Rightarrow> dict \<Rightarrow> json \<Rightarrow> datetime option \<Rightarrow> world \<Rightarrow> string option" where
  "entry_file_name lib env entry eid event_date w =
     (case dict_get_default entry ''actor'' (JObj []) of
        JObj actor \<Rightarrow>
          (let ts_format =
                 (case event_date of
                    Some d \<Rightarrow> strftime_second d
                  | None \<Rightarrow> strftime_second (now_at env (step w)))
           in case (dict_get_default actor ''first_name'' (JStr ''unknown''),
                    dict_get_default actor ''last_name'' (JStr ''unknown'')) of
                (JStr first_name, JStr last_name) \<Rightarrow>
                  Some (ts_format @ ''-'' @ lower lib first_name @ ''-'' @ lower lib last_name @
                        ''-'' @ format_json lib eid @ ''.json'')
              | _ \<Rightarrow> None)
      | _ \<Rightarrow> None)"

text \<open>
  \<open>process_feed_entry\<close> (source lines 650 to 733). An entry that is not a dict has no
  \<open>get\<close>; a truthy \<open>media\<close> that is not a dict has none either.
\<close>

definition process_feed_entry ::
  "pylib \<Rightarrow> env \<Rightarrow> json \<Rightarrow> string \<Rightarrow> string \<Rightarrow> string \<Rightarrow> world
     \<Rightarrow> (exn + processed_entry) \<times> world" where
  "process_feed_entry lib env entry child_feeds_dir child_images_dir child_videos_dir w =
     (case entry of
        JObj e \<Rightarrow>
          (let eid = derive_entry_id lib env e
           in case parse_event_date lib env e w of
                (Inl x, w1) \<Rightarrow> (Inl x, w1)
              | (Inr event_date, w1) \<Rightarrow>
                  (let stamp = isoformat lib (now_at env (step w1));
                       media = dict_get_none e ''media''
                   in case (if truthy media then
                              (case media of
                                 JObj m \<Rightarrow>
                                   download_refs lib env m event_date
                                     (media_refs child_images_dir child_videos_dir) [] w1
                               | _ \<Rightarrow> (Inl Exception, w1))
                            else (Inr [], w1)) of
                        (Inl x, w2) \<Rightarrow> (Inl x, w2)
                      | (Inr downloads, w2) \<Rightarrow>
                          (case entry_file_name lib env e eid event_date w2 of
                             None \<Rightarrow> (Inl Exception, w2)
                           | Some name \<Rightarrow>
                               (let processed =
                                      \<lparr>pe_id = eid, pe_original_data = entry,
                                       pe_processed_timestamp = stamp,
                                       pe_downloaded_media = downloads\<rparr>;
                                    entry_path = path_join child_feeds_dir name;
                                    w3 = w2\<lparr>step := Suc (step w2)\<rparr>
                                in case write_at env (step w2) entry_path of
                                     Written \<Rightarrow>
                                       (Inr processed,
                                        w3\<lparr>files := (files w2)(entry_path \<mapsto> EntryDoc processed)\<rparr>)
                                   | WriteFails x \<Rightarrow> (Inl x, w3)
                                   | WriteFailsMidway x \<Rightarrow>
                                       (Inl x, w3\<lparr>files := (files w2)(entry_path \<mapsto> Truncated)\<rparr>)))))
      | _ \<Rightarrow> (Inl Exception, w))"

section \<open>get_feed and the page loop\<close>

text \<open>
  \<open>get_feed\<close> (source lines 310 to 493). Everything from the request on sits in
  \<open>try ... except Exception\<close>, which logs and returns \<open>None\<close>.
\<close>

definition get_feed :: "env \<Rightarrow> string \<Rightarrow> nat \<Rightarrow> world \<Rightarrow> (exn + dict option) \<times> world" where
  "get_feed env sid page w =
     (let w1 = w\<lparr>feed_requests := feed_requests w @ [page], step := Suc (step w)\<rparr>
      in case feed_at env (step w) sid page of
           FeedRaises KeyboardInterrupt \<Rightarrow> (Inl KeyboardInterrupt, w1)
         | FeedRaises Exception \<Rightarrow> (Inr None, w1\<lparr>log := log w @ [FeedError]\<rparr>)
         | FeedJson data \<Rightarrow> (Inr (Some (json_feed data)), w1)
         | FeedHtml soup \<Rightarrow>
             (case html_feed soup of
                None \<Rightarrow> (Inr None, w1\<lparr>log := log w @ [FeedError]\<rparr>)
              | Some feed_data \<Rightarrow> (Inr (Some feed_data), w1)))"

text \<open>
  The loop over the entries of a page (source lines 766 to 773). An \<open>Exception\<close> from
  \<open>process_feed_entry\<close> is logged and the loop goes on; a \<open>KeyboardInterrupt\<close> leaves
  the loop. The result carries the list of processed entries as it stands.
\<close>

fun process_entries ::
  "pylib \<Rightarrow> env \<Rightarrow> string \<Rightarrow> string \<Rightarrow> string \<Rightarrow> json list \<Rightarrow> processed_entry list \<Rightarrow> world
     \<Rightarrow> (exn + unit) \<times> processed_entry list \<times> world" where
  "process_entries lib env fd im vd [] all_entries w = (Inr (), all_entries, w)"
| "process_entries lib env fd im vd (entry # rest) all_entries w =
     (case process_feed_entry lib env entry fd im vd w of
        (Inl KeyboardInterrupt, w1) \<Rightarrow> (Inl KeyboardInterrupt, all_entries, w1)
      | (Inl Exception, w1) \<Rightarrow>
          process_entries lib env fd im vd rest all_entries (w1\<lparr>log := log w1 @ [EntryError]\<rparr>)
      | (Inr processed, w1) \<Rightarrow>
          process_entries lib env fd im vd rest (all_entries @ [processed]) w1)"

text \<open>Iterating over \<open>feed_data.get('entries', [])\<close>: the elements of a list.\<close>

definition entries_of :: "dict \<Rightarrow> json list" where
  "entries_of feed_data =
     (case dict_get_default feed_data ''entries'' (JArr []) of JArr xs \<Rightarrow> xs | _ \<Rightarrow> [])"

text \<open>
  The \<open>while\<close> loop of \<open>_scrape_feed_for_student\<close> (source lines 752 to 780) together
  with the \<open>except KeyboardInterrupt\<close> clause. The loop need not end (a feed may report
  more pages for ever), so the function takes fuel: \<open>None\<close> means the fuel ran out. A
  result \<open>Some (page, all_entries, w)\<close> is the state in which control reaches the
  \<open>finally\<close> block.
\<close>

fun scrape_pages ::
  "nat \<Rightarrow> pylib \<Rightarrow> env \<Rightarrow> string \<Rightarrow> string \<Rightarrow> string \<Rightarrow> string \<Rightarrow> int option \<Rightarrow> bool \<Rightarrow> nat
     \<Rightarrow> processed_entry list \<Rightarrow> world \<Rightarrow> (nat \<times> processed_entry list \<times> world) option" where
  "scrape_pages 0 lib env sid fd im vd max_pages has_more page all_entries w = None"
| "scrape_pages (Suc fuel) lib env sid fd im vd max_pages has_more page all_entries w =
     (if has_more \<and> (case max_pages of None \<Rightarrow> True | Some m \<Rightarrow> int page \<le> m) then
        (case get_feed env sid page w of
           (Inl x, w1) \<Rightarrow> Some (page, all_entries, w1\<lparr>log := log w1 @ [Interrupted]\<rparr>)
         | (Inr None, w1) \<Rightarrow>
             Some (page, all_entries, w1\<lparr>log := log w1 @ [NoValidFeedWarning page]\<rparr>)
         | (Inr (Some feed_data), w1) \<Rightarrow>
             if dict_get feed_data ''entries'' = None
             then Some (page, all_entries, w1\<lparr>log := log w1 @ [NoValidFeedWarning page]\<rparr>)
             else if \<not> truthy (dict_get_default feed_data ''entries'' (JArr []))
             then Some (page, all_entries, w1)
             else
               (case process_entries lib env fd im vd (entries_of feed_data) all_entries w1 of
                  (Inl x, all1, w2) \<Rightarrow> Some (page, all1, w2\<lparr>log := log w2 @ [Interrupted]\<rparr>)
                | (Inr u, all1, w2) \<Rightarrow>
                    (let has_more1 = truthy (dict_get_default feed_data ''has_more'' (JBool False));
                         w3 = w2\<lparr>step := Suc (step w2)\<rparr>
                     in if sleep_at env (step w2)
                        then Some (Suc page, all1, w3\<lparr>log := log w2 @ [Interrupted]\<rparr>)
                        else scrape_pages fuel lib env sid fd im vd max_pages has_more1
                               (Suc page) all1 w3)))
      else Some (page, all_entries, w))"

text \<open>
  The \<open>finally\<close> block (source lines 785 to 805): write the index, save the history,
  return the processed entries. An exception of the index write leaves the block.
\<close>

definition write_index ::
  "pylib \<Rightarrow> env \<Rightarrow> string \<Rightarrow> string \<Rightarrow> string \<Rightarrow> json option \<Rightarrow> nat \<Rightarrow> processed_entry list
     \<Rightarrow> world \<Rightarrow> (exn + processed_entry list) \<times> world" where
  "write_index lib env sid sname fd total_entries page all_entries w =
     (let index_path = path_join fd ''feed_index.json'';
          index = \<lparr>idx_student_id = sid, idx_student_name = sname,
                   total_entries_scraped = length all_entries,
                   total_entries_available = total_entries,
                   pages_scraped = page - 1,
                   scraped_date = isoformat lib (now_at env (step w)),
                   idx_entries = all_entries\<rparr>;
          w1 = w\<lparr>step := Suc (step w)\<rparr>
      in case write_at env (step w) index_path of
           Written \<Rightarrow>
             (case save_download_history env
                     (w1\<lparr>files := (files w)(index_path \<mapsto> IndexDoc index)\<rparr>) of
                (Inl x, w2) \<Rightarrow> (Inl x, w2)
              | (Inr u, w2) \<Rightarrow> (Inr all_entries, w2))
         | WriteFails x \<Rightarrow> (Inl x, w1)
         | WriteFailsMidway x \<Rightarrow> (Inl x, w1\<lparr>files := (files w)(index_path \<mapsto> Truncated)\<rparr>))"

text \<open>
  \<open>_scrape_feed_for_student\<close> (source lines 735 to 805). \<open>total_entries\<close> is what
  \<open>feed_data.get('count', 0)\<close> finds in the dict that \<open>get_feed\<close> returned for the first
  page, and stays \<open>None\<close> when that call returned \<open>None\<close> or was interrupted.
\<close>

definition scrape_feed_for_student ::
  "nat \<Rightarrow> pylib \<Rightarrow> env \<Rightarrow> string \<Rightarrow> string \<Rightarrow> string \<Rightarrow> string \<Rightarrow> string \<Rightarrow> int option \<Rightarrow> world
     \<Rightarrow> ((exn + processed_entry list) \<times> world) option" where
  "scrape_feed_for_student fuel lib env sid sname fd im vd max_pages w =
     (case get_feed env sid 1 w of
        (Inl x, w1) \<Rightarrow>
          Some (write_index lib env sid sname fd None 1 [] (w1\<lparr>log := log w1 @ [Interrupted]\<rparr>))
      | (Inr first_page, w1) \<Rightarrow>
          (let total_entries =
                 (case first_page of
                    None \<Rightarrow> None
                  | Some feed_data \<Rightarrow>
                      if feed_data \<noteq> [] then Some (dict_get_default feed_data ''count'' (JInt 0))
                      else None)
           in case scrape_pages fuel lib env sid fd im vd max_pages True 1 [] w1 of
                None \<Rightarrow> None
              | Some (page, all_entries, w2) \<Rightarrow>
                  Some (write_index lib env sid sname fd total_entries page all_entries w2)))"

section \<open>The life of an archive\<close>

text \<open>
  Over its life an archive sees download calls, history saves (at the end of every
  student) and new processes, each process with its own outside world. A new process
  starts with the history it can load.
\<close>

datatype archive_op =
    Download string string "datetime option" string
  | SaveHistory
  | Restart

fun archive_step :: "pylib \<Rightarrow> env \<times> archive_op \<Rightarrow> world \<Rightarrow> world" where
  "archive_step lib (env, Download url media_type event_date output_dir) w =
     snd (download_media lib env url media_type event_date output_dir w)"
| "archive_step lib (env, SaveHistory) w = snd (save_download_history env w)"
| "archive_step lib (env, Restart) w = init_download_history w"

fun archive_run :: "pylib \<Rightarrow> (env \<times> archive_op) list \<Rightarrow> world \<Rightarrow> world" where
  "archive_run lib [] w = w"
| "archive_run lib (op # ops) w = archive_run lib ops (archive_step lib op w)"

section \<open>The video rule in the words of the specification\<close>

text \<open>
  A URL is present under a key of \<open>video_info\<close> when the value there is a non-empty
  string: that is what \<open>if downloadable_url:\<close> tests on a string.
\<close>

definition url_field :: "dict \<Rightarrow> string \<Rightarrow> string option" where
  "url_field d k =
     (case dict_get d k of Some (JStr u) \<Rightarrow> if u = [] then None else Some u | _ \<Rightarrow> None)"

text \<open>The value under a key is a string or \<open>null\<close>, or the key is absent.\<close>

definition url_or_absent :: "dict \<Rightarrow> string \<Rightarrow> bool" where
  "url_or_absent d k =
     (case dict_get d k of
        None \<Rightarrow> True
      | Some JNull \<Rightarrow> True
      | Some (JStr u) \<Rightarrow> True
      | _ \<Rightarrow> False)"

text \<open>
  Section 4.2 of the specification, rules 1 to 3: the downloadable URL when present;
  else the streamable URL with \<open>playlist.m3u8\<close> replaced by \<open>video.mp4\<close> when it
  contains that substring; else the streamable URL as it is.
\<close>

definition spec_primary_video :: "string option \<Rightarrow> string option \<Rightarrow> string option" where
  "spec_primary_video downloadable streamable =
     (case downloadable of
        Some d \<Rightarrow> Some d
      | None \<Rightarrow>
          (case streamable of
             None \<Rightarrow> None
           | Some s \<Rightarrow>
               if contains ''playlist.m3u8'' s
               then Some (replace ''playlist.m3u8'' ''video.mp4'' s) else Some s))"

section \<open>Example inputs\<close>

definition video_info_both :: dict where
  "video_info_both =
     [(''downloadable_url'', JStr ''https://x/d.mp4''),
      (''streamable_url'', JStr ''https://x/playlist.m3u8'')]"

definition activity_both :: dict where
  "activity_both = [(''object_id'', JStr ''a1''), (''video_info'', JObj video_info_both)]"

definition video_info_hls :: dict where
  "video_info_hls = [(''streamable_url'', JStr ''https://x/a/playlist.m3u8'')]"

definition activity_hls :: dict where
  "activity_hls = [(''object_id'', JStr ''a2''), (''video_info'', JObj video_info_hls)]"

text \<open>
  A library for the examples. \<open>example_url_path\<close> is the path of a URL of the form
  \<open>scheme://host/path\<close>, cut at \<open>?\<close> or \<open>#\<close>; it agrees with
  \<open>unquote(urlparse(url).path)\<close> on such URLs when they hold no percent escape.
  \<open>example_dumps\<close> writes JSON as \<open>json.dumps\<close> does for strings that need no
  escaping. \<open>example_fromisoformat\<close> knows the one timestamp of the examples. Names in
  the examples are in lower case already.
\<close>

fun after_scheme :: "string \<Rightarrow> string" where
  "after_scheme (a # b # c # rest) =
     (if [a, b, c] = ''://'' then rest else after_scheme (b # c # rest))"
| "after_scheme s = s"

definition example_url_path :: "string \<Rightarrow> string option" where
  "example_url_path url =
     Some (takeWhile (\<lambda>c. c \<noteq> CHR ''?'' \<and> c \<noteq> CHR ''#'')
             (dropWhile (\<lambda>c. c \<noteq> CHR ''/'') (after_scheme url)))"

fun join :: "string \<Rightarrow> string list \<Rightarrow> string" where
  "join sep [] = []"
| "join sep [x] = x"
| "join sep (x # y # ys) = x @ sep @ join sep (y # ys)"

fun example_dumps :: "json \<Rightarrow> string" where
  "example_dumps JNull = ''null''"
| "example_dumps (JBool b) = (if b then ''true'' else ''false'')"
| "example_dumps (JInt i) = str_int i"
| "example_dumps (JStr s) = ''\"'' @ s @ ''\"''"
| "example_dumps (JArr xs) = ''['' @ join '', '' (map example_dumps xs) @ '']''"
| "example_dumps (JObj kvs) =
     ''{'' @ join '', '' (map (\<lambda>(k, v). ''\"'' @ k @ ''\": '' @ example_dumps v) kvs) @ ''}''"

definition may_first :: datetime where
  "may_first = \<lparr>year = 2024, month = 5, day = 1, hour = 10, minute = 0, second = 0\<rparr>"

definition example_fromisoformat :: "string \<Rightarrow> datetime option" where
  "example_fromisoformat s = (if s = ''2024-05-01T10:00:00+00:00'' then Some may_first else None)"

definition example_lib :: pylib where
  "example_lib =
     \<lparr>url_path = example_url_path, json_dumps = example_dumps,
      fromisoformat = example_fromisoformat,
      isoformat = (\<lambda>d. strftime_second d), lower = (\<lambda>s. s), repr = example_dumps\<rparr>"

text \<open>Two hash functions, as two processes with different salts have them.\<close>

definition example_hash :: "string \<Rightarrow> int" where
  "example_hash s = int (sum_list (map of_char s)) * 31 - 7"

definition other_hash :: "string \<Rightarrow> int" where
  "other_hash s = example_hash s + 1"

text \<open>
  A quiet outside world: the clock advances one second per step, every media fetch
  completes, every write succeeds, no sleep is interrupted, and the feed has nothing.
\<close>

definition quiet_env :: env where
  "quiet_env =
     \<lparr>str_hash = example_hash,
      time_at = (\<lambda>i. 1714557600 + i),
      now_at = (\<lambda>i. \<lparr>year = 2024, month = 5, day = 1, hour = 10, minute = 0, second = i mod 60\<rparr>),
      feed_at = (\<lambda>i sid p. FeedRaises Exception),
      media_at = (\<lambda>i url. Completes ''bytes''),
      write_at = (\<lambda>i path. Written),
      sleep_at = (\<lambda>i. False)\<rparr>"

definition empty_world :: world where
  "empty_world =
     \<lparr>files = Map.empty, history_file = NoFile, downloaded_files = {}, requests = [],
      completed = [], feed_requests = [], log = [], step = 0\<rparr>"

text \<open>A markup page with a "next page" link and no video poster.\<close>

definition next_soup :: "element list" where
  "next_soup =
     [Element ''div'' [''feed''] []
        [Element ''p'' [] [] [],
         Element ''a'' [''next-page''] [(''href'', ''/feed?page=2'')] []]]"

text \<open>A world whose feed answers every request with that markup page.\<close>

definition markup_env :: env where
  "markup_env = quiet_env\<lparr>feed_at := (\<lambda>i sid p. FeedHtml next_soup)\<rparr>"

section \<open>Names that do not depend on the clock\<close>

text \<open>The last segment of the URL's path is not empty and holds a dot: the name is
  taken from the URL and not synthesized.\<close>

definition named_by_url :: "pylib \<Rightarrow> string \<Rightarrow> bool" where
  "named_by_url lib url =
     (case url_path lib url of
        None \<Rightarrow> False
      | Some p \<Rightarrow> basename p \<noteq> [] \<and> CHR ''.'' \<in> set (basename p))"

text \<open>An entry without \<open>object_id\<close> and without media.\<close>

definition note_entry :: dict where
  "note_entry =
     [(''event_date'', JStr ''2024-05-01T10:00:00Z''),
      (''actor'', JObj [(''first_name'', JStr ''ann''), (''last_name'', JStr ''lee'')]),
      (''note'', JStr ''nap'')]"

section \<open>Assumptions on the outside world and on the input\<close>

text \<open>No operation of the run is interrupted from the keyboard.\<close>

definition never_interrupted :: "env \<Rightarrow> bool" where
  "never_interrupted env =
     (\<forall>i. (\<forall>url. media_at env i url \<noteq> Fails KeyboardInterrupt \<and>
               (\<forall>partial. media_at env i url \<noteq> FailsMidway KeyboardInterrupt partial)) \<and>
          (\<forall>path. write_at env i path \<noteq> WriteFails KeyboardInterrupt \<and>
                write_at env i path \<noteq> WriteFailsMidway KeyboardInterrupt) \<and>
          (\<forall>sid page. feed_at env i sid page \<noteq> FeedRaises KeyboardInterrupt) \<and>
          \<not> sleep_at env i)"

text \<open>Every write of a JSON file succeeds; every write of the history succeeds.\<close>

definition writes_succeed :: "env \<Rightarrow> bool" where
  "writes_succeed env = (\<forall>i path. write_at env i path = Written)"

definition saves_succeed :: "env \<Rightarrow> bool" where
  "saves_succeed env = (\<forall>i. write_at env i history_path = Written)"

text \<open>The value under a key of \<open>media\<close> is falsy, or a URL string that \<open>urlparse\<close>
  accepts.\<close>

definition ref_ok :: "pylib \<Rightarrow> dict \<Rightarrow> string \<Rightarrow> bool" where
  "ref_ok lib media key =
     (case dict_get_none media key of
        JStr url \<Rightarrow> url = [] \<or> url_path lib url \<noteq> None
      | v \<Rightarrow> \<not> truthy v)"

text \<open>
  An entry of the shape the feed documents: the event date is a string (or falsy), the
  media value is an object whose four URL fields are URL strings (or it is falsy), and the
  actor is an object whose names are strings (or it is absent).
\<close>

definition well_formed_entry :: "pylib \<Rightarrow> dict \<Rightarrow> bool" where
  "well_formed_entry lib e =
     ((case dict_get_none e ''event_date'' of JStr s \<Rightarrow> True | v \<Rightarrow> \<not> truthy v) \<and>
      (case dict_get_none e ''media'' of
         JObj m \<Rightarrow> list_all (ref_ok lib m)
                    [''image_url'', ''thumbnail_url'', ''video_thumbnail_url'', ''video_url'']
       | v \<Rightarrow> \<not> truthy v) \<and>
      (case dict_get_default e ''actor'' (JObj []) of
         JObj a \<Rightarrow>
           (case dict_get_default a ''first_name'' (JStr ''unknown'') of
              JStr s \<Rightarrow> True | _ \<Rightarrow> False) \<and>
           (case dict_get_default a ''last_name'' (JStr ''unknown'') of
              JStr s \<Rightarrow> True | _ \<Rightarrow> False)
       | _ \<Rightarrow> False))"

text \<open>The URLs of the history on disk; none when the file is absent or unreadable.\<close>

definition stored_history :: "world \<Rightarrow> string set" where
  "stored_history w = (case history_file w of History urls \<Rightarrow> urls | _ \<Rightarrow> {})"

text \<open>Every URL fetched to completion is in the history in memory, and none was
  fetched to completion twice.\<close>

definition history_covers :: "world \<Rightarrow> bool" where
  "history_covers w = (distinct (completed w) \<and> set (completed w) \<subseteq> downloaded_files w)"

text \<open>The same with the history on disk in between: it is loadable, holds every URL
  fetched to completion, and holds nothing the memory does not.\<close>

definition saved_history_covers :: "world \<Rightarrow> bool" where
  "saved_history_covers w =
     (distinct (completed w) \<and> history_file w \<noteq> Unreadable \<and>
      set (completed w) \<subseteq> stored_history w \<and> stored_history w \<subseteq> downloaded_files w)"

text \<open>The index document at a path, if one is there.\<close>

definition written_index :: "world \<Rightarrow> string \<Rightarrow> subject_index option" where
  "written_index w path = (case files w path of Some (IndexDoc i) \<Rightarrow> Some i | _ \<Rightarrow> None)"

text \<open>An archive that holds one photo and a history file that cannot be loaded.\<close>

definition photo_url :: string where
  "photo_url = ''https://x/a/photo.jpg''"

definition corrupt_world :: world where
  "corrupt_world =
     empty_world\<lparr>files := [''images/2024-05-01-10-00-photo.jpg'' \<mapsto> Media ''jpeg''],
                 history_file := Unreadable\<rparr>"

text \<open>The entry without id processed twice in one process: in an empty archive, and
  later in another archive with other directories.\<close>

definition note_run_first :: "(exn + processed_entry) \<times> world" where
  "note_run_first =
     process_feed_entry example_lib quiet_env (JObj note_entry) ''feeds'' ''images'' ''videos''
       empty_world"

definition note_run_second :: "(exn + processed_entry) \<times> world" where
  "note_run_second =
     process_feed_entry example_lib quiet_env (JObj note_entry) ''f2'' ''i2'' ''v2''
       (corrupt_world\<lparr>step := 40\<rparr>)"

text \<open>
  A feed of five entries on one page, and a run that is interrupted while the third
  entry is being written: the two feed requests are steps 0 and 1, the entry files are
  written at steps 2, 3 and 4.
\<close>

definition plain_entry :: "string \<Rightarrow> dict" where
  "plain_entry oid = [(''object_id'', JStr oid), (''event_date'', JStr ''2024-05-01T10:00:00Z'')]"

definition five_page :: feed_json where
  "five_page =
     \<lparr>feed_activities = map (\<lambda>oid. JObj (plain_entry oid)) [''e1'', ''e2'', ''e3'', ''e4'', ''e5''],
      feed_count = Some 5, feed_page = Some 1, feed_page_size = Some 10\<rparr>"

definition interrupting_env :: env where
  "interrupting_env =
     quiet_env\<lparr>feed_at := (\<lambda>i sid p. FeedJson five_page),
               write_at := (\<lambda>i path. if i = 4 then WriteFails KeyboardInterrupt else Written)\<rparr>"

definition partial_run :: "((exn + processed_entry list) \<times> world) option" where
  "partial_run =
     scrape_feed_for_student 2 example_lib interrupting_env ''s1'' ''kid'' ''feeds'' ''images''
       ''videos'' None empty_world"

text \<open>The feed of the pagination test: 30 entries in pages of 10. Every answer for
  the pages 1, 2 and 3 is a JSON body that reports the count 30, the page asked for and
  the page size 10, and holds at least one activity.\<close>

definition thirty_in_tens :: "env \<Rightarrow> string \<Rightarrow> bool" where
  "thirty_in_tens env sid =
     (\<forall>i. \<forall>p \<in> {1, 2, 3}.
        case feed_at env i sid p of
          FeedJson data \<Rightarrow>
            feed_count data = Some 30 \<and> feed_page data = Some (int p) \<and>
            feed_page_size data = Some 10 \<and> feed_activities data \<noteq> []
        | _ \<Rightarrow> False)"

definition three_page_env :: env where
  "three_page_env =
     quiet_env\<lparr>feed_at := (\<lambda>i sid p. FeedJson
        \<lparr>feed_activities = [JObj (plain_entry ''e'')], feed_count = Some 30,
         feed_page = Some (int p), feed_page_size = Some 10\<rparr>)\<rparr>"

section \<open>Already downloaded\<close>

text \<open>The condition of the dedup check: the URL is in the history in memory, or the
  derived destination path exists.\<close>

definition already_downloaded ::
  "pylib \<Rightarrow> env \<Rightarrow> string \<Rightarrow> string \<Rightarrow> datetime option \<Rightarrow> string \<Rightarrow> world \<Rightarrow> bool" where
  "already_downloaded lib env url media_type event_date output_dir w =
     (url \<in> downloaded_files w \<or>
      (case timestamped_file_name lib env url media_type event_date w of
         None \<Rightarrow> False
       | Some name \<Rightarrow> path_join output_dir name \<in> dom (files w)))"

text \<open>More examples: a URL whose path ends in a slash; a world in which every media
  fetch breaks off after the bytes \<open>par\<close>; a world in which the history can never be
  written; a second event date.\<close>

definition slash_url :: string where
  "slash_url = ''https://x/a/''"

definition breaking_env :: env where
  "breaking_env = quiet_env\<lparr>media_at := (\<lambda>i url. FailsMidway Exception ''par'')\<rparr>"

definition nosave_env :: env where
  "nosave_env =
     quiet_env\<lparr>write_at := (\<lambda>i path. if path = history_path then WriteFails Exception else Written)\<rparr>"

definition may_second :: datetime where
  "may_second = \<lparr>year = 2024, month = 5, day = 2, hour = 10, minute = 0, second = 0\<rparr>"

text \<open>The state after a first download of \<open>slash_url\<close> into an empty archive: in the
  quiet world, and in the world where the fetch breaks off.\<close>

definition after_first_download :: world where
  "after_first_download =
     snd (download_media example_lib quiet_env slash_url ''image'' (Some may_first) ''images''
            empty_world)"

definition after_broken_download :: world where
  "after_broken_download =
     snd (download_media example_lib breaking_env slash_url ''image'' (Some may_first) ''images''
            empty_world)"

text \<open>Two processes: the first downloads the photo for an entry of 1 May and cannot
  save the history; the second meets the same URL in an entry of 2 May.\<close>

definition two_runs :: "(env \<times> archive_op) list" where
  "two_runs =
     [(nosave_env, Download photo_url ''image'' (Some may_first) ''images''),
      (nosave_env, SaveHistory),
      (nosave_env, Restart),
      (nosave_env, Download photo_url ''image'' (Some may_second) ''images'')]"

text \<open>The photo is fetched into an empty archive and the fetch breaks off; later the
  history is saved and a new process starts.\<close>

definition after_broken_photo :: world where
  "after_broken_photo =
     archive_run example_lib [(quiet_env, SaveHistory), (quiet_env, Restart)]
       (snd (download_media example_lib breaking_env photo_url ''image'' (Some may_first)
               ''images'' empty_world))"

text \<open>The state after the photo was downloaded into an empty archive; one process
  that meets the photo twice; and two processes that can save the history.\<close>

definition after_photo_download :: world where
  "after_photo_download =
     snd (download_media example_lib quiet_env photo_url ''image'' (Some may_first) ''images''
            empty_world)"

definition one_run :: "(env \<times> archive_op) list" where
  "one_run =
     [(quiet_env, Download photo_url ''image'' (Some may_first) ''images''),
      (quiet_env, Download photo_url ''image'' (Some may_second) ''images''),
      (quiet_env, SaveHistory)]"

definition two_saved_runs :: "(env \<times> archive_op) list" where
  "two_saved_runs =
     [(quiet_env, Download photo_url ''image'' (Some may_first) ''images''),
      (quiet_env, SaveHistory),
      (quiet_env, Restart),
      (quiet_env, Download photo_url ''image'' (Some may_second) ''images'')]"

section \<open>Entries whose media fail\<close>

text \<open>Every record of a list names a URL that is in the history in memory.\<close>

definition recorded_in_history :: "download_record list \<Rightarrow> world \<Rightarrow> bool" where
  "recorded_in_history records w = list_all (\<lambda>r. dl_original_url r \<in> downloaded_files w) records"

text \<open>Every element of a page is a well-formed entry.\<close>

definition well_formed_entries :: "pylib \<Rightarrow> json list \<Rightarrow> bool" where
  "well_formed_entries lib es =
     list_all (\<lambda>entry. case entry of JObj e \<Rightarrow> well_formed_entry lib e | _ \<Rightarrow> False) es"

text \<open>An entry with one image, the photo.\<close>

definition photo_media :: dict where
  "photo_media = [(''image_url'', JStr photo_url)]"

definition photo_entry :: dict where
  "photo_entry =
     [(''object_id'', JStr ''p1''), (''event_date'', JStr ''2024-05-01T10:00:00Z''),
      (''media'', JObj photo_media)]"

text \<open>The photo entry processed in an empty archive while every fetch breaks off, and a
  page of two entries.\<close>

definition broken_photo_run :: "(exn + processed_entry) \<times> world" where
  "broken_photo_run =
     process_feed_entry example_lib breaking_env (JObj photo_entry) ''feeds'' ''images'' ''videos''
       empty_world"

definition two_entries :: "json list" where
  "two_entries = [JObj photo_entry, JObj (plain_entry ''e2'')]"

text \<open>A clock that advances one minute per step, for calls without an event date.\<close>

definition minute_clock :: "nat \<Rightarrow> datetime" where
  "minute_clock i = \<lparr>year = 2024, month = 5, day = 1, hour = 10, minute = i mod 60, second = 0\<rparr>"

definition quiet_minute_env :: env where
  "quiet_minute_env = quiet_env\<lparr>now_at := minute_clock\<rparr>"

definition breaking_minute_env :: env where
  "breaking_minute_env = breaking_env\<lparr>now_at := minute_clock\<rparr>"

section \<open>Decimal strings and the examples\<close>

lemma str_nat_small: "n < 10 \<Longrightarrow> str_nat n = [digit_char n]"
  by (subst str_nat.simps) simp

lemma str_nat_large: "10 \<le> n \<Longrightarrow> str_nat n = str_nat (n div 10) @ [digit_char (n mod 10)]"
  by (subst str_nat.simps) simp

lemma str_nat_nonempty: "str_nat n \<noteq> []"
  by (subst str_nat.simps) simp

lemma str_int_nonempty: "str_int i \<noteq> []"
  by (simp add: str_int_def str_nat_nonempty)

lemma quiet_env_simps:
  "str_hash quiet_env = example_hash"
  "time_at quiet_env i = 1714557600 + i"
  "media_at quiet_env i url = Completes ''bytes''"
  "write_at quiet_env i path = Written"
  "sleep_at quiet_env i = False"
  by (simp_all add: quiet_env_def)

lemma breaking_env_simps:
  "str_hash breaking_env = example_hash"
  "time_at breaking_env i = 1714557600 + i"
  "media_at breaking_env i url = FailsMidway Exception ''par''"
  by (simp_all add: breaking_env_def quiet_env_def)

lemma photo_name:
  "timestamped_file_name example_lib env photo_url mt (Some may_first) w = Some ''2024-05-01-10-00-photo.jpg''"
  by (simp add: timestamped_file_name_def example_lib_def example_url_path_def basename_def photo_url_def
      may_first_def strftime_minute_def pad_def str_nat_small str_nat_large digit_char_def)

lemma photo_name_on:
  "timestamped_file_name example_lib env photo_url mt (Some d) w = Some (strftime_minute d @ ''-photo.jpg'')"
  by (simp add: timestamped_file_name_def example_lib_def example_url_path_def basename_def photo_url_def)

lemma may_names:
  "strftime_minute may_first = ''2024-05-01-10-00''" "strftime_minute may_second = ''2024-05-02-10-00''"
  by (simp_all add: may_first_def may_second_def strftime_minute_def pad_def str_nat_small
      str_nat_large digit_char_def)

lemma str_nat_clock:
  "str_nat 1714557600 = ''1714557600''" "str_nat 1714557601 = ''1714557601''"
  "str_nat 1714557602 = ''1714557602''"
  by (simp_all add: str_nat_small str_nat_large digit_char_def)

lemma slash_name:
  "timestamped_file_name example_lib env slash_url ''image'' (Some may_first) w
     = Some (''2024-05-01-10-00-media_'' @ str_nat (time_at env (step w)) @ ''_'' @
             str_int (str_hash env slash_url mod 10000) @ ''.image'')"
  by (simp add: timestamped_file_name_def example_lib_def example_url_path_def basename_def
      slash_url_def may_first_def strftime_minute_def pad_def str_nat_small str_nat_large
      digit_char_def)

lemma slash_hash: "str_int (example_hash slash_url mod 10000) = ''1799''"
  by (simp add: example_hash_def slash_url_def str_int_def str_nat_small str_nat_large digit_char_def)

lemma photo_named: "named_by_url example_lib photo_url"
  by (simp add: named_by_url_def example_lib_def example_url_path_def photo_url_def basename_def)

lemma photo_name_now:
  "timestamped_file_name example_lib env photo_url mt None w
     = Some (strftime_minute (now_at env (step w)) @ ''-photo.jpg'')"
  by (simp add: timestamped_file_name_def example_lib_def example_url_path_def basename_def photo_url_def)

lemma minute_clock_names:
  "strftime_minute (minute_clock 0) = ''2024-05-01-10-00''"
  "strftime_minute (minute_clock 1) = ''2024-05-01-10-01''"
  "strftime_minute (minute_clock (Suc 0)) = ''2024-05-01-10-01''"
  "strftime_minute (minute_clock 2) = ''2024-05-01-10-02''"
  by (simp_all add: minute_clock_def strftime_minute_def pad_def str_nat_small str_nat_large
      digit_char_def)

lemma minute_env_simps:
  "now_at quiet_minute_env = minute_clock"
  "media_at quiet_minute_env i url = Completes ''bytes''"
  "write_at quiet_minute_env i path = Written"
  "now_at breaking_minute_env = minute_clock"
  "media_at breaking_minute_env i url = FailsMidway Exception ''par''"
  by (simp_all add: quiet_minute_env_def breaking_minute_env_def breaking_env_def quiet_env_def)

lemma undated_photo_names:
  "timestamped_file_name example_lib quiet_minute_env photo_url ''image'' None empty_world
     \<noteq> timestamped_file_name example_lib quiet_minute_env photo_url ''image'' None
         (empty_world\<lparr>step := 1\<rparr>)"
  by (simp add: photo_name_now minute_env_simps minute_clock_names empty_world_def)

section \<open>Dicts\<close>

lemma dict_get_dict_set:
  "dict_get (dict_set k v d) k' = (if k' = k then Some v else dict_get d k')"
  by (induction d) (auto simp: dict_get_def)

section \<open>Video URL resolution\<close>

lemma set_media_dict:
  "dict_get a ''media'' = Some (JObj m) \<Longrightarrow>
   set_media k v a = Some (dict_set ''media'' (JObj (dict_set k v m)) a)"
  by (simp add: set_media_def)

lemma set_media_defined:
  "dict_get a ''media'' = Some (JObj m) \<Longrightarrow>
   \<exists>a'. set_media k v a = Some a' \<and> (\<exists>m'. dict_get a' ''media'' = Some (JObj m'))"
  by (simp add: set_media_def dict_get_dict_set)

lemma video_url_of_dict_set:
  "video_url_of (JObj (dict_set ''media'' (JObj m) a)) = dict_get m ''video_url''"
  by (simp add: video_url_of_def dict_get_dict_set)

lemma video_url_of_set_media:
  "set_media k v a = Some a' \<Longrightarrow>
   video_url_of (JObj a') = (if k = ''video_url'' then Some v else video_url_of (JObj a))"
  by (auto simp: set_media_def video_url_of_def dict_get_dict_set
      split: option.splits json.splits)

lemma set_video_url_result:
  assumes "dict_get a ''media'' = Some (JObj m)"
    and "url_or_absent vi ''downloadable_url''" and "url_or_absent vi ''streamable_url''"
    and "spec_primary_video (url_field vi ''downloadable_url'')
           (url_field vi ''streamable_url'') = Some u"
  shows "\<exists>a'. set_video_url (dict_get_none vi ''downloadable_url'')
                 (dict_get_none vi ''streamable_url'') a = Some a'
     \<and> video_url_of (JObj a') = Some (JStr u)
     \<and> (\<exists>m'. dict_get a' ''media'' = Some (JObj m'))"
  using assms(2,3,4)
  by (auto simp: set_video_url_def url_or_absent_def url_field_def dict_get_none_def
        spec_primary_video_def set_media_dict [OF assms(1)] video_url_of_dict_set
        dict_get_dict_set
      split: option.splits json.splits if_splits)

text \<open>
  C6. For an activity that carries a \<open>video_info\<close> object whose URL fields are strings
  (or absent), and whose \<open>media\<close> is absent, \<open>null\<close> or an object, the video URL that
  \<open>get_feed\<close> stores under \<open>media['video_url']\<close> is the one the specification's
  first-match rule names: the downloadable URL if present; otherwise the streamable URL
  with every \<open>playlist.m3u8\<close> replaced by \<open>video.mp4\<close> if it contains that substring;
  otherwise the streamable URL as it is.
\<close>

theorem video_precedence:
  assumes "dict_get a ''video_info'' = Some (JObj vi)"
    and "dict_get a ''media'' = None \<or> dict_get a ''media'' = Some JNull
         \<or> (\<exists>m. dict_get a ''media'' = Some (JObj m))"
    and "url_or_absent vi ''downloadable_url''" and "url_or_absent vi ''streamable_url''"
    and "spec_primary_video (url_field vi ''downloadable_url'')
           (url_field vi ''streamable_url'') = Some u"
  shows "video_url_of (process_video_info (JObj a)) = Some (JStr u)"
proof -
  define a1 where
    "a1 = (if dict_get_none a ''media'' = JNull then dict_set ''media'' (JObj []) a else a)"
  from assms(2) obtain m where m: "dict_get a1 ''media'' = Some (JObj m)"
    by (auto simp: a1_def dict_get_none_def dict_get_dict_set)
  from set_video_url_result [OF m assms(3,4,5)] obtain a2 m2 where
    a2: "set_video_url (dict_get_none vi ''downloadable_url'')
           (dict_get_none vi ''streamable_url'') a1 = Some a2"
    and v2: "video_url_of (JObj a2) = Some (JStr u)"
    and m2: "dict_get a2 ''media'' = Some (JObj m2)"
    by blast
  have ne: "vi \<noteq> []"
    and tr: "truthy (dict_get_none vi ''streamable_url'')
             \<or> truthy (dict_get_none vi ''downloadable_url'')"
    using assms(5)
    by (auto simp: spec_primary_video_def url_field_def dict_get_none_def dict_get_def
        split: option.splits json.splits if_splits)
  show ?thesis
  proof (cases "truthy (dict_get_none vi ''thumbnail_url'')")
    case False
    with assms(1) ne tr a2 v2 show ?thesis
      by (auto simp: process_video_info_def Let_def a1_def [symmetric])
  next
    case True
    from set_media_defined [OF m2] obtain a3 where
      a3: "set_media ''video_thumbnail_url'' (dict_get_none vi ''thumbnail_url'') a2 = Some a3"
      by blast
    from video_url_of_set_media [OF a3] v2 have "video_url_of (JObj a3) = Some (JStr u)"
      by simp
    with assms(1) ne tr a2 a3 True show ?thesis
      by (auto simp: process_video_info_def Let_def a1_def [symmetric])
  qed
qed

text \<open>The two payloads of the specification's test list.\<close>

theorem video_precedence_witness:
  "video_url_of (process_video_info (JObj activity_both)) = Some (JStr ''https://x/d.mp4'') \<and>
   video_url_of (process_video_info (JObj activity_hls)) = Some (JStr ''https://x/a/video.mp4'')"
proof
  have "spec_primary_video (url_field video_info_both ''downloadable_url'')
          (url_field video_info_both ''streamable_url'') = Some ''https://x/d.mp4''"
    by (simp add: spec_primary_video_def url_field_def video_info_both_def dict_get_def)
  then show "video_url_of (process_video_info (JObj activity_both))
               = Some (JStr ''https://x/d.mp4'')"
    using video_precedence [of activity_both video_info_both "''https://x/d.mp4''"]
    by (simp add: activity_both_def video_info_both_def url_or_absent_def dict_get_def)
next
  have "spec_primary_video (url_field video_info_hls ''downloadable_url'')
          (url_field video_info_hls ''streamable_url'') = Some ''https://x/a/video.mp4''"
    by (simp add: spec_primary_video_def url_field_def video_info_hls_def dict_get_def)
  then show "video_url_of (process_video_info (JObj activity_hls))
               = Some (JStr ''https://x/a/video.mp4'')"
    using video_precedence [of activity_hls video_info_hls "''https://x/a/video.mp4''"]
    by (simp add: activity_hls_def video_info_hls_def url_or_absent_def dict_get_def)
qed

section \<open>The has_more flag\<close>

lemma html_feed_has_more:
  "html_feed soup = Some feed_data \<Longrightarrow> dict_get feed_data ''has_more'' = Some (JBool False)"
  by (auto simp: html_feed_def Let_def dict_get_def split: option.splits)

text \<open>
  C3. The markup branch of \<open>get_feed\<close> answers \<open>has_more = False\<close> for a page that
  holds a "next page" link, the very link that \<open>_parse_feed_html\<close> looks for: on
  \<open>next_soup\<close> the selector of \<open>_parse_feed_html\<close> finds the link, and \<open>get_feed\<close>
  returns no entries and \<open>has_more = False\<close>.
\<close>

theorem markup_next_page_ignored:
  "parse_feed_html_has_more next_soup \<and>
   html_feed next_soup = Some [(''entries'', JArr []), (''has_more'', JBool False)] \<and>
   fst (get_feed markup_env ''s1'' 1 empty_world)
     = Inr (Some [(''entries'', JArr []), (''has_more'', JBool False)])"
proof -
  have a: "parse_feed_html_has_more next_soup"
    by (simp add: parse_feed_html_has_more_def next_page_def select_one_def next_soup_def
        matches_complex_def matches_simple_def by_class_def by_tag_class_def)
  have b: "html_feed next_soup = Some [(''entries'', JArr []), (''has_more'', JBool False)]"
    by (simp add: html_feed_def next_soup_def)
  have "feed_at markup_env 0 ''s1'' 1 = FeedHtml next_soup"
    by (simp add: markup_env_def)
  then have "fst (get_feed markup_env ''s1'' 1 empty_world)
     = Inr (Some [(''entries'', JArr []), (''has_more'', JBool False)])"
    by (simp add: get_feed_def Let_def b empty_world_def)
  with a b show ?thesis by simp
qed

lemma json_feed_has_more:
  "dict_get (json_feed data) ''has_more'' =
     Some (JBool (get_int (feed_count data) 0
                    > get_int (feed_page data) 1 * get_int (feed_page_size data) 10))"
  by (simp add: json_feed_def dict_get_def)

section \<open>File names\<close>

text \<open>
  C4, as amended. With the event timestamp present: when the last segment of the URL's
  path is non-empty and holds a dot, any two calls derive the same file name, whatever
  the clock, the hash salt and the media type; otherwise the name is
  \<open>media_{clock at the call}_{hash(url) mod 10000}.{media type}\<close> after the timestamp
  prefix; and two calls that read the same clock and the same hash of the URL derive the
  same name for the same media type.
\<close>

theorem file_name_two_calls:
  "(named_by_url lib url \<longrightarrow>
      timestamped_file_name lib env url media_type (Some d) w
        = timestamped_file_name lib env' url media_type' (Some d) w') \<and>
   (\<not> named_by_url lib url \<and> url_path lib url \<noteq> None \<longrightarrow>
      timestamped_file_name lib env url media_type (Some d) w
        = Some (strftime_minute d @ ''-media_'' @ str_nat (time_at env (step w)) @ ''_'' @
                str_int (str_hash env url mod 10000) @ ''.'' @ media_type)) \<and>
   (time_at env (step w) = time_at env' (step w') \<and> str_hash env url = str_hash env' url \<longrightarrow>
      timestamped_file_name lib env url media_type (Some d) w
        = timestamped_file_name lib env' url media_type (Some d) w')"
  by (auto simp: named_by_url_def timestamped_file_name_def Let_def split: option.splits)

theorem file_name_two_calls_witness:
  "named_by_url example_lib ''https://x/a/photo.jpg'' \<and>
   timestamped_file_name example_lib quiet_env ''https://x/a/photo.jpg'' ''image'' (Some may_first) empty_world
     = timestamped_file_name example_lib (quiet_env\<lparr>str_hash := other_hash\<rparr>) ''https://x/a/photo.jpg'' ''image''
         (Some may_first) (empty_world\<lparr>step := 7\<rparr>) \<and>
   \<not> named_by_url example_lib ''https://x/a/'' \<and> url_path example_lib ''https://x/a/'' \<noteq> None \<and>
   timestamped_file_name example_lib quiet_env ''https://x/a/'' ''image'' (Some may_first) empty_world
     = Some ''2024-05-01-10-00-media_1714557600_1799.image''"
  using file_name_two_calls [of example_lib "''https://x/a/photo.jpg''" quiet_env "''image''" may_first
      empty_world "quiet_env\<lparr>str_hash := other_hash\<rparr>" "''image''" "empty_world\<lparr>step := 7\<rparr>"]
    file_name_two_calls [of example_lib "''https://x/a/''" quiet_env "''image''" may_first
      empty_world quiet_env "''image''" empty_world]
  by (simp add: named_by_url_def example_lib_def example_url_path_def basename_def quiet_env_def
      empty_world_def may_first_def strftime_minute_def pad_def str_nat.simps digit_char_def
      example_hash_def str_int_def)

text \<open>
  C4 as stated fails: for a URL whose path ends in a slash, the same event timestamp and
  URL give two different names one second apart; and without an event timestamp the
  photo gets two different names one minute apart.
\<close>

theorem file_name_clock_counterexample:
  "timestamped_file_name example_lib quiet_env ''https://x/a/'' ''image'' (Some may_first) empty_world
     \<noteq> timestamped_file_name example_lib quiet_env ''https://x/a/'' ''image'' (Some may_first)
         (empty_world\<lparr>step := 1\<rparr>) \<and>
   timestamped_file_name example_lib quiet_minute_env photo_url ''image'' None empty_world
     \<noteq> timestamped_file_name example_lib quiet_minute_env photo_url ''image'' None
         (empty_world\<lparr>step := 1\<rparr>)"
proof -
  have "timestamped_file_name example_lib quiet_env ''https://x/a/'' ''image'' (Some may_first)
          empty_world
     \<noteq> timestamped_file_name example_lib quiet_env ''https://x/a/'' ''image'' (Some may_first)
         (empty_world\<lparr>step := 1\<rparr>)"
    by (simp add: timestamped_file_name_def example_lib_def example_url_path_def basename_def
        quiet_env_def empty_world_def str_nat.simps digit_char_def)
  with undated_photo_names show ?thesis by simp
qed

section \<open>Facts about download_media\<close>

lemmas dm_splits =
  option.splits if_splits fetch_outcome.splits exn.splits prod.splits sum.splits

lemma save_download_history_cases:
  "save_download_history env w = (r, w') \<Longrightarrow>
   files w' = files w \<and> downloaded_files w' = downloaded_files w \<and> requests w' = requests w \<and>
   completed w' = completed w \<and> feed_requests w' = feed_requests w \<and> step w' = Suc (step w)"
  by (auto simp: save_download_history_def Let_def split: write_outcome.splits exn.splits)

lemma save_download_history_calm:
  "never_interrupted env \<Longrightarrow> \<exists>w'. save_download_history env w = (Inr (), w')"
  by (auto simp: save_download_history_def Let_def never_interrupted_def
      split: write_outcome.splits exn.splits)

lemma timestamped_file_name_nonempty:
  "timestamped_file_name lib env url mt ed w = Some name \<Longrightarrow> name \<noteq> []"
  by (auto simp: timestamped_file_name_def Let_def split: option.splits)

lemma timestamped_file_name_defined:
  "url_path lib url \<noteq> None \<Longrightarrow> \<exists>name. timestamped_file_name lib env url mt ed w = Some name"
  by (auto simp: timestamped_file_name_def Let_def split: option.splits)

lemma download_media_present:
  assumes "timestamped_file_name lib env url mt ed w = Some name"
    and "path_join dir name \<in> dom (files w)"
  shows "download_media lib env url mt ed dir w =
           (Inr (Some name), w\<lparr>downloaded_files := insert url (downloaded_files w)\<rparr>)"
  using assms by (simp add: download_media_def Let_def)

lemma download_media_known:
  assumes "timestamped_file_name lib env url mt ed w = Some name"
    and "path_join dir name \<notin> dom (files w)" and "url \<in> downloaded_files w"
  shows "download_media lib env url mt ed dir w = (Inr (Some name), w)"
  using assms by (simp add: download_media_def Let_def)

lemma download_media_fetches:
  assumes "timestamped_file_name lib env url mt ed w = Some name"
    and "path_join dir name \<notin> dom (files w)" and "url \<notin> downloaded_files w"
  shows "requests (snd (download_media lib env url mt ed dir w)) = requests w @ [url]"
  using assms
  by (auto simp: download_media_def Let_def dest: save_download_history_cases
      split: fetch_outcome.splits exn.splits prod.splits sum.splits)

lemma download_media_feed_requests:
  "download_media lib env url mt ed dir w = (r, w') \<Longrightarrow> feed_requests w' = feed_requests w"
  by (auto simp: download_media_def Let_def dest: save_download_history_cases split: dm_splits)

lemma download_media_history_grows:
  "download_media lib env url mt ed dir w = (r, w') \<Longrightarrow>
   downloaded_files w \<subseteq> downloaded_files w'"
  by (auto simp: download_media_def Let_def dest: save_download_history_cases split: dm_splits)

lemma download_media_keeps_files:
  "download_media lib env url mt ed dir w = (r, w') \<Longrightarrow> files w p = Some c \<Longrightarrow>
   files w' p = Some c"
  by (auto simp: download_media_def Let_def dest!: save_download_history_cases split: dm_splits)

lemma download_media_returns_name:
  "download_media lib env url mt ed dir w = (Inr (Some name), w') \<Longrightarrow>
   url \<in> downloaded_files w' \<and> timestamped_file_name lib env url mt ed w = Some name"
  by (auto simp: download_media_def Let_def dest!: save_download_history_cases split: dm_splits)

lemma download_media_exception:
  "download_media lib env url mt ed dir w = (Inl Exception, w') \<Longrightarrow> url_path lib url = None"
  by (auto simp: download_media_def Let_def save_download_history_def timestamped_file_name_def
      split: dm_splits write_outcome.splits)

lemma download_media_calm:
  "never_interrupted env \<Longrightarrow>
   download_media lib env url mt ed dir w \<noteq> (Inl KeyboardInterrupt, w')"
  by (auto simp: download_media_def Let_def save_download_history_def never_interrupted_def
      split: dm_splits write_outcome.splits)

section \<open>The entry id\<close>

lemma process_feed_entry_id:
  "process_feed_entry lib env (JObj e) fd im vd w = (Inr p, w') \<Longrightarrow>
   pe_id p = derive_entry_id lib env e"
  by (auto simp: process_feed_entry_def Let_def
      split: prod.splits sum.splits option.splits write_outcome.splits if_splits)

text \<open>
  C7, as amended. For an entry without the key \<open>object_id\<close>, the id that
  \<open>process_feed_entry\<close> gives it is the decimal string of
  \<open>hash(json.dumps(entry)) mod 10000\<close>, which is not empty; two calls on the same
  payload in processes with the same string hash give the same id, whatever the state of
  the archive, the clock and the directories.
\<close>

theorem derived_entry_id:
  assumes "dict_get e ''object_id'' = None"
    and "process_feed_entry lib env (JObj e) fd im vd w = (Inr p, w')"
    and "process_feed_entry lib env' (JObj e) fd' im' vd' v = (Inr p', v')"
    and "str_hash env' = str_hash env"
  shows "pe_id p' = pe_id p \<and>
         pe_id p = JStr (str_int (str_hash env (json_dumps lib (JObj e)) mod 10000)) \<and>
         str_int (str_hash env (json_dumps lib (JObj e)) mod 10000) \<noteq> []"
  using assms process_feed_entry_id [OF assms(2)] process_feed_entry_id [OF assms(3)]
  by (simp add: derive_entry_id_def dict_get_default_def str_int_nonempty)

lemma note_entry_id:
  "derive_entry_id example_lib env note_entry = JStr (str_int (str_hash env (example_dumps (JObj note_entry)) mod 10000))"
  by (simp add: derive_entry_id_def dict_get_default_def dict_get_def note_entry_def example_lib_def)

lemma note_entry_hash: "example_hash (example_dumps (JObj note_entry)) mod 10000 = 3064"
  by (simp add: note_entry_def example_hash_def)

lemma note_entry_date:
  "parse_event_date example_lib env note_entry w = (Inr (Some may_first), w)"
  by (simp add: parse_event_date_def note_entry_def example_lib_def dict_get_none_def dict_get_def
      example_fromisoformat_def)

lemma note_entry_file:
  "entry_file_name example_lib env note_entry eid (Some may_first) w
     = Some (''2024-05-01-10-00-00-ann-lee-'' @ format_json example_lib eid @ ''.json'')"
  by (simp add: entry_file_name_def note_entry_def example_lib_def dict_get_default_def dict_get_def
     strftime_second_def strftime_minute_def pad_def may_first_def str_nat_small str_nat_large digit_char_def)

lemma note_entry_processed:
  "write_at env (step w) (path_join fd (''2024-05-01-10-00-00-ann-lee-'' @ format_json example_lib (derive_entry_id example_lib env note_entry) @ ''.json'')) = Written \<Longrightarrow>
   map_sum id pe_id (fst (process_feed_entry example_lib env (JObj note_entry) fd im vd w))
     = Inr (derive_entry_id example_lib env note_entry)"
  by (simp add: process_feed_entry_def Let_def note_entry_date note_entry_file)
     (simp add: note_entry_def dict_get_none_def dict_get_def)

lemma process_feed_entry_no_media:
  assumes "\<not> truthy (dict_get_none e ''media'')"
    and "parse_event_date lib env e w = (Inr ed, w)"
    and "entry_file_name lib env e (derive_entry_id lib env e) ed w = Some name"
  shows "process_feed_entry lib env (JObj e) fd im vd w =
    (case write_at env (step w) (path_join fd name) of
       Written \<Rightarrow>
         (Inr \<lparr>pe_id = derive_entry_id lib env e, pe_original_data = JObj e,
               pe_processed_timestamp = isoformat lib (now_at env (step w)),
               pe_downloaded_media = []\<rparr>,
          w\<lparr>step := Suc (step w),
            files := (files w)(path_join fd name \<mapsto>
              EntryDoc \<lparr>pe_id = derive_entry_id lib env e, pe_original_data = JObj e,
                        pe_processed_timestamp = isoformat lib (now_at env (step w)),
                        pe_downloaded_media = []\<rparr>)\<rparr>)
     | WriteFails x \<Rightarrow> (Inl x, w\<lparr>step := Suc (step w)\<rparr>)
     | WriteFailsMidway x \<Rightarrow>
         (Inl x, w\<lparr>step := Suc (step w), files := (files w)(path_join fd name \<mapsto> Truncated)\<rparr>))"
  using assms by (simp add: process_feed_entry_def Let_def split: write_outcome.splits)

lemma note_entry_no_media: "\<not> truthy (dict_get_none note_entry ''media'')"
  by (simp add: note_entry_def dict_get_none_def dict_get_def)

lemma note_entry_quiet_id: "derive_entry_id example_lib quiet_env note_entry = JStr ''3064''"
  by (simp add: note_entry_id quiet_env_simps note_entry_hash str_int_def str_nat_small
        str_nat_large digit_char_def del: example_dumps.simps)

lemma note_entry_quiet_run:
  "\<exists>p w'. process_feed_entry example_lib quiet_env (JObj note_entry) fd im vd w = (Inr p, w')"
  by (simp add: process_feed_entry_no_media [OF note_entry_no_media note_entry_date note_entry_file]
      quiet_env_simps)

text \<open>The entry without id, processed twice by one process in two archives.\<close>

theorem derived_entry_id_witness:
  "dict_get note_entry ''object_id'' = None \<and>
   note_run_first = (Inr (projr (fst note_run_first)), snd note_run_first) \<and>
   note_run_second = (Inr (projr (fst note_run_second)), snd note_run_second) \<and>
   pe_id (projr (fst note_run_second)) = pe_id (projr (fst note_run_first)) \<and>
   pe_id (projr (fst note_run_first)) = JStr ''3064''"
proof -
  have a: "dict_get note_entry ''object_id'' = None"
    by (simp add: note_entry_def dict_get_def)
  have b: "process_feed_entry example_lib quiet_env (JObj note_entry) ''feeds'' ''images'' ''videos''
             empty_world = (Inr (projr (fst note_run_first)), snd note_run_first)"
    using note_entry_quiet_run [of "''feeds''" "''images''" "''videos''" empty_world]
    by (auto simp: note_run_first_def)
  have c: "process_feed_entry example_lib quiet_env (JObj note_entry) ''f2'' ''i2'' ''v2''
             (corrupt_world\<lparr>step := 40\<rparr>) = (Inr (projr (fst note_run_second)), snd note_run_second)"
    using note_entry_quiet_run [of "''f2''" "''i2''" "''v2''" "corrupt_world\<lparr>step := 40\<rparr>"]
    by (auto simp: note_run_second_def)
  have d: "str_int (example_hash (example_dumps (JObj note_entry)) mod 10000) = ''3064''"
    by (simp add: note_entry_hash str_int_def str_nat_small str_nat_large digit_char_def
        del: example_dumps.simps)
  from derived_entry_id [OF a b c] have
    "pe_id (projr (fst note_run_second)) = pe_id (projr (fst note_run_first)) \<and>
     pe_id (projr (fst note_run_first)) = JStr ''3064''"
    by (simp add: quiet_env_simps example_lib_def d del: example_dumps.simps)
  with a b c show ?thesis
    by (simp add: note_run_first_def [symmetric] note_run_second_def [symmetric])
qed

text \<open>
  C7 as stated fails: the same payload gets the id 3064 in a process with one string hash
  and 3065 in a process with another, so the id is not a function of the content alone.
\<close>

theorem derived_entry_id_salt_counterexample:
  "map_sum id pe_id (fst (process_feed_entry example_lib quiet_env (JObj note_entry)
       ''feeds'' ''images'' ''videos'' empty_world)) = Inr (JStr ''3064'') \<and>
   map_sum id pe_id (fst (process_feed_entry example_lib (quiet_env\<lparr>str_hash := other_hash\<rparr>)
       (JObj note_entry) ''feeds'' ''images'' ''videos'' empty_world)) = Inr (JStr ''3065'')"
proof -
  have a: "derive_entry_id example_lib quiet_env note_entry = JStr ''3064''"
    by (simp add: note_entry_id quiet_env_def note_entry_hash str_int_def str_nat_small
        str_nat_large digit_char_def del: example_dumps.simps)
  have "other_hash (example_dumps (JObj note_entry)) mod 10000 = 3065"
    by (simp add: note_entry_def example_hash_def other_hash_def)
  then have b: "derive_entry_id example_lib (quiet_env\<lparr>str_hash := other_hash\<rparr>) note_entry = JStr ''3065''"
    by (simp add: note_entry_id str_int_def str_nat_small str_nat_large digit_char_def
        del: example_dumps.simps)
  show ?thesis
    using note_entry_processed [of quiet_env empty_world "''feeds''" "''images''" "''videos''"]
      note_entry_processed [of "quiet_env\<lparr>str_hash := other_hash\<rparr>" empty_world "''feeds''" "''images''" "''videos''"]
    by (simp add: a b) (simp add: quiet_env_def)
qed

section \<open>An unreadable history\<close>

text \<open>
  C10. When \<open>download_history.json\<close> is there and cannot be loaded, the constructor logs
  a warning and goes on with an empty history in memory, and the archive is not touched.
  From that state a download call asks the network exactly when the derived destination
  path does not exist: the path check alone decides.
\<close>

theorem unreadable_history:
  assumes "history_file w = Unreadable"
  shows "downloaded_files (init_download_history w) = {} \<and>
         log (init_download_history w) = log w @ [HistoryLoadWarning] \<and>
         files (init_download_history w) = files w \<and>
         (timestamped_file_name lib env url mt ed (init_download_history w) = Some name \<longrightarrow>
            (requests (snd (download_media lib env url mt ed dir (init_download_history w)))
               = requests (init_download_history w)
             \<longleftrightarrow> path_join dir name \<in> dom (files w)))"
proof -
  let ?v = "init_download_history w"
  have v: "downloaded_files ?v = {}" "log ?v = log w @ [HistoryLoadWarning]" "files ?v = files w"
    using assms by (simp_all add: init_download_history_def load_download_history_def)
  have "requests (snd (download_media lib env url mt ed dir ?v)) = requests ?v
          \<longleftrightarrow> path_join dir name \<in> dom (files w)"
    if n: "timestamped_file_name lib env url mt ed ?v = Some name"
  proof (cases "path_join dir name \<in> dom (files ?v)")
    case True
    with download_media_present [OF n True] v show ?thesis by simp
  next
    case False
    with download_media_fetches [OF n False] v show ?thesis by simp
  qed
  with v show ?thesis by blast
qed

theorem unreadable_history_witness:
  "history_file corrupt_world = Unreadable \<and>
   downloaded_files (init_download_history corrupt_world) = {} \<and>
   log (init_download_history corrupt_world) = [HistoryLoadWarning] \<and>
   timestamped_file_name example_lib quiet_env photo_url ''image'' (Some may_first)
     (init_download_history corrupt_world) = Some ''2024-05-01-10-00-photo.jpg'' \<and>
   requests (snd (download_media example_lib quiet_env photo_url ''image'' (Some may_first) ''images''
                    (init_download_history corrupt_world)))
     = requests (init_download_history corrupt_world) \<and>
   path_join ''images'' ''2024-05-01-10-00-photo.jpg'' \<in> dom (files corrupt_world)"
  using unreadable_history [of corrupt_world example_lib quiet_env photo_url "''image''"
      "Some may_first" "''2024-05-01-10-00-photo.jpg''" "''images''"]
  by (simp add: photo_name corrupt_world_def empty_world_def path_join_def)

section \<open>The index of an interrupted run\<close>

lemma get_feed_no_count:
  "get_feed env sid p w = (Inr (Some feed_data), w') \<Longrightarrow> dict_get feed_data ''count'' = None"
  by (auto simp: get_feed_def Let_def json_feed_def html_feed_def dict_get_def
      split: feed_response.splits exn.splits option.splits)

lemma plain_entry_facts:
  "\<not> truthy (dict_get_none (plain_entry oid) ''media'')"
  "parse_event_date example_lib env (plain_entry oid) w = (Inr (Some may_first), w)"
  "derive_entry_id example_lib env (plain_entry oid) = JStr oid"
  "process_video_info (JObj (plain_entry oid)) = JObj (plain_entry oid)"
  by (simp_all add: plain_entry_def dict_get_none_def dict_get_def parse_event_date_def
      example_lib_def example_fromisoformat_def derive_entry_id_def dict_get_default_def
      process_video_info_def)

lemma plain_entry_file:
  "entry_file_name example_lib env (plain_entry oid) (JStr oid) (Some may_first) w
     = Some (''2024-05-01-10-00-00-unknown-unknown-'' @ oid @ ''.json'')"
  by (simp add: entry_file_name_def plain_entry_def example_lib_def dict_get_default_def dict_get_def
     format_json_def strftime_second_def strftime_minute_def pad_def may_first_def str_nat_small
     str_nat_large digit_char_def)

lemmas plain_entry_processed =
  process_feed_entry_no_media [OF plain_entry_facts(1) plain_entry_facts(2),
    unfolded plain_entry_facts(3), OF plain_entry_file]

lemma five_page_feed:
  "json_feed five_page =
     [(''entries'', JArr (map (\<lambda>oid. JObj (plain_entry oid)) [''e1'', ''e2'', ''e3'', ''e4'', ''e5''])),
      (''has_more'', JBool False)]"
  by (simp add: json_feed_def five_page_def plain_entry_facts get_int_def)

lemma interrupting_env_simps:
  "feed_at interrupting_env i sid p = FeedJson five_page"
  "write_at interrupting_env i path = (if i = 4 then WriteFails KeyboardInterrupt else Written)"
  "now_at interrupting_env = now_at quiet_env"
  "sleep_at interrupting_env i = False"
  by (simp_all add: interrupting_env_def quiet_env_def)

lemma interrupting_get_feed:
  "get_feed interrupting_env sid p w =
     (Inr (Some (json_feed five_page)),
      w\<lparr>feed_requests := feed_requests w @ [p], step := Suc (step w)\<rparr>)"
  by (simp add: get_feed_def Let_def interrupting_env_simps)

lemma partial_run_value:
  "\<exists>p1 p2 w. partial_run = Some (Inr [p1, p2], w) \<and> pe_id p1 = JStr ''e1'' \<and> pe_id p2 = JStr ''e2'' \<and>
     written_index w ''feeds/feed_index.json'' =
       Some \<lparr>idx_student_id = ''s1'', idx_student_name = ''kid'', total_entries_scraped = 2,
             total_entries_available = Some (JInt 0), pages_scraped = 0,
             scraped_date = isoformat example_lib (now_at quiet_env 5), idx_entries = [p1, p2]\<rparr>"
  unfolding partial_run_def scrape_feed_for_student_def
  apply (simp add: interrupting_get_feed numeral_2_eq_2 five_page_feed dict_get_default_def dict_get_def
      entries_of_def plain_entry_processed interrupting_env_simps empty_world_def
      write_index_def Let_def path_join_def save_download_history_def written_index_def history_path_def)
  apply (simp add: eval_nat_numeral)
  done

text \<open>
  C2. A run over a feed of five entries is interrupted while the third entry is written.
  The index that the \<open>finally\<close> block writes counts 2 scraped entries and lists exactly
  the two processed entries, as the claim says, but its \<open>total_entries_available\<close> is 0
  and not 5: \<open>get_feed\<close> returns a dict without the key \<open>count\<close>, so
  \<open>feed_data.get('count', 0)\<close> is always 0.
\<close>

theorem partial_run_index:
  "partial_run \<noteq> None \<and>
   map_option total_entries_scraped (written_index (snd (the partial_run)) ''feeds/feed_index.json'')
     = Some 2 \<and>
   map_option total_entries_available (written_index (snd (the partial_run)) ''feeds/feed_index.json'')
     = Some (Some (JInt 0)) \<and>
   map_option (map pe_id \<circ> idx_entries) (written_index (snd (the partial_run)) ''feeds/feed_index.json'')
     = Some [JStr ''e1'', JStr ''e2''] \<and>
   map_sum id (map pe_id) (fst (the partial_run)) = Inr [JStr ''e1'', JStr ''e2'']"
proof -
  from partial_run_value obtain p1 p2 w where
    run: "partial_run = Some (Inr [p1, p2], w)"
    and ids: "pe_id p1 = JStr ''e1''" "pe_id p2 = JStr ''e2''"
    and idx: "written_index w ''feeds/feed_index.json'' =
       Some \<lparr>idx_student_id = ''s1'', idx_student_name = ''kid'', total_entries_scraped = 2,
             total_entries_available = Some (JInt 0), pages_scraped = 0,
             scraped_date = isoformat example_lib (now_at quiet_env 5), idx_entries = [p1, p2]\<rparr>"
    by blast
  show ?thesis by (simp add: run ids idx)
qed

section \<open>Runs that are not interrupted\<close>

lemmas ref_splits = prod.splits json.splits sum.splits option.splits if_splits

lemma download_ref_feed_requests:
  "download_ref lib env m ed ref recs w = (r, w') \<Longrightarrow> feed_requests w' = feed_requests w"
  by (auto simp: download_ref_def Let_def split: ref_splits dest: download_media_feed_requests)

lemma download_ref_calm:
  "never_interrupted env \<Longrightarrow> download_ref lib env m ed ref recs w \<noteq> (Inl KeyboardInterrupt, w')"
  by (auto simp: download_ref_def Let_def split: ref_splits dest: download_media_calm)

lemma download_refs_feed_requests:
  "download_refs lib env m ed refs recs w = (r, w') \<Longrightarrow> feed_requests w' = feed_requests w"
  by (induction refs arbitrary: recs w)
     (auto split: prod.splits sum.splits dest: download_ref_feed_requests)

lemma download_refs_calm:
  "never_interrupted env \<Longrightarrow> download_refs lib env m ed refs recs w \<noteq> (Inl KeyboardInterrupt, w')"
  by (induction refs arbitrary: recs w)
     (auto split: prod.splits sum.splits dest: download_ref_calm)

lemma parse_event_date_world:
  "parse_event_date lib env e w = (r, w') \<Longrightarrow>
   feed_requests w' = feed_requests w \<and> files w' = files w \<and> step w' = step w \<and>
   downloaded_files w' = downloaded_files w \<and> r \<noteq> Inl KeyboardInterrupt"
  by (auto simp: parse_event_date_def Let_def split: ref_splits)

lemma process_feed_entry_feed_requests:
  "process_feed_entry lib env entry fd im vd w = (r, w') \<Longrightarrow> feed_requests w' = feed_requests w"
  by (auto simp: process_feed_entry_def Let_def
      split: ref_splits write_outcome.splits
      dest!: parse_event_date_world download_refs_feed_requests)

lemma never_interrupted_write:
  "never_interrupted env \<Longrightarrow>
   write_at env i path \<noteq> WriteFails KeyboardInterrupt \<and>
   write_at env i path \<noteq> WriteFailsMidway KeyboardInterrupt"
  by (simp add: never_interrupted_def)

lemma process_feed_entry_calm:
  assumes "never_interrupted env"
  shows "process_feed_entry lib env entry fd im vd w \<noteq> (Inl KeyboardInterrupt, w')"
  using download_refs_calm [OF assms] never_interrupted_write [OF assms]
  by (auto simp: process_feed_entry_def Let_def
      split: ref_splits write_outcome.splits
      dest!: parse_event_date_world)

lemma process_entries_calm:
  assumes "never_interrupted env"
  shows "\<exists>all' w'. process_entries lib env fd im vd es all_entries w = (Inr (), all', w') \<and>
           feed_requests w' = feed_requests w"
proof (induction es arbitrary: all_entries w)
  case Nil
  show ?case by simp
next
  case (Cons e es)
  obtain r w1 where r: "process_feed_entry lib env e fd im vd w = (r, w1)"
    by (cases "process_feed_entry lib env e fd im vd w")
  from r have fr: "feed_requests w1 = feed_requests w"
    by (rule process_feed_entry_feed_requests)
  from r process_feed_entry_calm [OF assms] have ni: "r \<noteq> Inl KeyboardInterrupt"
    by auto
  show ?case
  proof (cases r)
    case (Inl x)
    with ni have "x = Exception" by (cases x) auto
    with Inl r fr Cons.IH [of all_entries "w1\<lparr>log := log w1 @ [EntryError]\<rparr>"]
    show ?thesis by simp
  next
    case (Inr p)
    with r fr Cons.IH [of "all_entries @ [p]" w1] show ?thesis by simp
  qed
qed

section \<open>Pagination\<close>

lemma scrape_pages_step:
  assumes calm: "never_interrupted env"
    and feed: "feed_at env (step w) sid page = FeedJson data"
    and acts: "feed_activities data \<noteq> []"
    and limit: "case max_pages of None \<Rightarrow> True | Some m \<Rightarrow> int page \<le> m"
  shows "\<exists>all' w'.
           scrape_pages (Suc fuel) lib env sid fd im vd max_pages True page all_entries w =
           scrape_pages fuel lib env sid fd im vd max_pages
             (get_int (feed_count data) 0 > get_int (feed_page data) 1 * get_int (feed_page_size data) 10)
             (Suc page) all' w' \<and>
           feed_requests w' = feed_requests w @ [page]"
proof -
  let ?w1 = "w\<lparr>feed_requests := feed_requests w @ [page], step := Suc (step w)\<rparr>"
  have gf: "get_feed env sid page w = (Inr (Some (json_feed data)), ?w1)"
    using feed by (simp add: get_feed_def Let_def)
  from process_entries_calm [OF calm, of lib fd im vd "entries_of (json_feed data)" all_entries ?w1]
  obtain all' w2 where
    pe: "process_entries lib env fd im vd (entries_of (json_feed data)) all_entries ?w1
           = (Inr (), all', w2)"
    and fr: "feed_requests w2 = feed_requests ?w1"
    by blast
  have sl: "\<not> sleep_at env (step w2)"
    using calm by (simp add: never_interrupted_def)
  have ent: "dict_get (json_feed data) ''entries''
               = Some (JArr (map process_video_info (feed_activities data)))"
    "truthy (dict_get_default (json_feed data) ''entries'' (JArr []))"
    "dict_get_default (json_feed data) ''has_more'' (JBool False) =
       JBool (get_int (feed_count data) 0 > get_int (feed_page data) 1 * get_int (feed_page_size data) 10)"
    using acts by (simp_all add: json_feed_def dict_get_def dict_get_default_def)
  show ?thesis
    using limit gf pe sl ent fr
    by (intro exI [of _ all'] exI [of _ "w2\<lparr>step := Suc (step w2)\<rparr>"]) (simp add: Let_def)
qed

lemma scrape_pages_stop:
  "scrape_pages (Suc fuel) lib env sid fd im vd max_pages False page all_entries w
     = Some (page, all_entries, w)"
  by simp

text \<open>
  C5. For every JSON payload the \<open>has_more\<close> flag that \<open>get_feed\<close> returns is
  \<open>count > page * page_size\<close> (absent fields count as 0, 1 and 10). With a count of 30
  and a page size of 10 the flag is true on pages 1 and 2 and false on page 3. And when
  the feed serves such pages, no operation is interrupted and \<open>max_pages\<close> is unset or
  at least 3, the page loop asks for the pages 1, 2 and 3, in this order, and then stops
  with the page counter at 4, so that \<open>pages_scraped\<close> is 3.
\<close>

theorem has_more_and_three_pages:
  "dict_get (json_feed data) ''has_more'' =
     Some (JBool (get_int (feed_count data) 0
                    > get_int (feed_page data) 1 * get_int (feed_page_size data) 10)) \<and>
   (feed_count data = Some 30 \<and> feed_page_size data = Some 10 \<and> feed_page data = Some p \<longrightarrow>
      dict_get (json_feed data) ''has_more'' = Some (JBool (p < 3))) \<and>
   (never_interrupted env \<and> thirty_in_tens env sid \<and>
    (case max_pages of None \<Rightarrow> True | Some m \<Rightarrow> 3 \<le> m) \<longrightarrow>
      (\<exists>all_entries w'.
         scrape_pages (4 + extra) lib env sid fd im vd max_pages True 1 [] w
           = Some (4, all_entries, w') \<and>
         feed_requests w' = feed_requests w @ [1, 2, 3]))"
proof (intro conjI impI)
  show "dict_get (json_feed data) ''has_more'' =
     Some (JBool (get_int (feed_count data) 0
                    > get_int (feed_page data) 1 * get_int (feed_page_size data) 10))"
    by (simp add: json_feed_def dict_get_def)
next
  assume "feed_count data = Some 30 \<and> feed_page_size data = Some 10 \<and> feed_page data = Some p"
  then show "dict_get (json_feed data) ''has_more'' = Some (JBool (p < 3))"
    by (auto simp: json_feed_def dict_get_def get_int_def)
next
  assume h: "never_interrupted env \<and> thirty_in_tens env sid \<and>
    (case max_pages of None \<Rightarrow> True | Some m \<Rightarrow> 3 \<le> m)"
  then have calm: "never_interrupted env" and feed: "thirty_in_tens env sid"
    and lim: "case max_pages of None \<Rightarrow> True | Some m \<Rightarrow> 3 \<le> m"
    by simp_all
  have page: "\<exists>data. feed_at env i sid p = FeedJson data \<and> feed_activities data \<noteq> [] \<and>
      (get_int (feed_count data) 0 > get_int (feed_page data) 1 * get_int (feed_page_size data) 10)
        = (p < 3)"
    if "p \<in> {1, 2, 3}" for i p
  proof -
    from feed that have "case feed_at env i sid p of
          FeedJson data \<Rightarrow>
            feed_count data = Some 30 \<and> feed_page data = Some (int p) \<and>
            feed_page_size data = Some 10 \<and> feed_activities data \<noteq> []
        | _ \<Rightarrow> False"
      unfolding thirty_in_tens_def by blast
    then show ?thesis
      by (cases "feed_at env i sid p") (auto simp: get_int_def)
  qed
  have lims: "case max_pages of None \<Rightarrow> True | Some m \<Rightarrow> int q \<le> m" if "q \<le> 3" for q
    using lim that by (cases max_pages) auto
  from page [of 1 "step w"] obtain d1 where
    d1: "feed_at env (step w) sid 1 = FeedJson d1" "feed_activities d1 \<noteq> []"
      "get_int (feed_count d1) 0 > get_int (feed_page d1) 1 * get_int (feed_page_size d1) 10"
    by auto
  from scrape_pages_step [OF calm d1(1) d1(2) lims [of 1], of "Suc (Suc (Suc extra))" lib fd im vd "[]"]
    d1(3)
  obtain a1 w1 where
    s1: "scrape_pages (Suc (Suc (Suc (Suc extra)))) lib env sid fd im vd max_pages True 1 [] w =
         scrape_pages (Suc (Suc (Suc extra))) lib env sid fd im vd max_pages True 2 a1 w1"
    and r1: "feed_requests w1 = feed_requests w @ [1]"
    by (auto simp del: scrape_pages.simps simp: numeral_2_eq_2)
  from page [of 2 "step w1"] obtain d2 where
    d2: "feed_at env (step w1) sid 2 = FeedJson d2" "feed_activities d2 \<noteq> []"
      "get_int (feed_count d2) 0 > get_int (feed_page d2) 1 * get_int (feed_page_size d2) 10"
    by auto
  from scrape_pages_step [OF calm d2(1) d2(2) lims [of 2], of "Suc (Suc extra)" lib fd im vd a1] d2(3)
  obtain a2 w2 where
    s2: "scrape_pages (Suc (Suc (Suc extra))) lib env sid fd im vd max_pages True 2 a1 w1 =
         scrape_pages (Suc (Suc extra)) lib env sid fd im vd max_pages True 3 a2 w2"
    and r2: "feed_requests w2 = feed_requests w1 @ [2]"
    by (auto simp del: scrape_pages.simps simp: numeral_3_eq_3)
  from page [of 3 "step w2"] obtain d3 where
    d3: "feed_at env (step w2) sid 3 = FeedJson d3" "feed_activities d3 \<noteq> []"
      "\<not> get_int (feed_count d3) 0 > get_int (feed_page d3) 1 * get_int (feed_page_size d3) 10"
    by auto
  from scrape_pages_step [OF calm d3(1) d3(2) lims [of 3], of "Suc extra" lib fd im vd a2] d3(3)
  obtain a3 w3 where
    s3: "scrape_pages (Suc (Suc extra)) lib env sid fd im vd max_pages True 3 a2 w2 =
         scrape_pages (Suc extra) lib env sid fd im vd max_pages False 4 a3 w3"
    and r3: "feed_requests w3 = feed_requests w2 @ [3]"
    by (auto simp del: scrape_pages.simps simp: eval_nat_numeral)
  have fuel: "4 + extra = Suc (Suc (Suc (Suc extra)))"
    by simp
  have "scrape_pages (4 + extra) lib env sid fd im vd max_pages True 1 [] w = Some (4, a3, w3)"
    unfolding fuel s1 s2 s3 by simp
  with r1 r2 r3 show "\<exists>all_entries w'.
         scrape_pages (4 + extra) lib env sid fd im vd max_pages True 1 [] w
           = Some (4, all_entries, w') \<and>
         feed_requests w' = feed_requests w @ [1, 2, 3]"
    by simp
qed

lemma three_page_env_calm: "never_interrupted three_page_env"
  by (simp add: never_interrupted_def three_page_env_def quiet_env_def)

lemma three_page_env_feed: "thirty_in_tens three_page_env sid"
  by (simp add: thirty_in_tens_def three_page_env_def)

text \<open>A feed that serves 30 entries in pages of 10, and the page-2 payload.\<close>

theorem has_more_and_three_pages_witness:
  "never_interrupted three_page_env \<and> thirty_in_tens three_page_env ''s1'' \<and>
   dict_get (json_feed \<lparr>feed_activities = [], feed_count = Some 30, feed_page = Some 2,
                         feed_page_size = Some 10\<rparr>) ''has_more'' = Some (JBool True) \<and>
   (\<exists>all_entries w'.
      scrape_pages 4 example_lib three_page_env ''s1'' ''feeds'' ''images'' ''videos'' None True 1 []
        empty_world = Some (4, all_entries, w') \<and>
      feed_requests w' = [1, 2, 3])"
  using has_more_and_three_pages [of "\<lparr>feed_activities = [], feed_count = Some 30, feed_page = Some 2,
                         feed_page_size = Some 10\<rparr>" 2 three_page_env "''s1''" None 0
      example_lib "''feeds''" "''images''" "''videos''" empty_world]
    three_page_env_calm three_page_env_feed
  by (simp add: empty_world_def get_int_def)

section \<open>A fetch that breaks off\<close>

lemma named_by_url_name:
  "named_by_url lib url \<Longrightarrow>
   timestamped_file_name lib env url mt (Some d) w = timestamped_file_name lib env' url mt' (Some d) w'"
  by (auto simp: named_by_url_def timestamped_file_name_def Let_def split: option.splits)

lemma archive_step_keeps_files:
  "files w p = Some c \<Longrightarrow> files (archive_step lib op w) p = Some c"
proof (cases op)
  case (Pair env aop)
  assume f: "files w p = Some c"
  show ?thesis
  proof (cases aop)
    case (Download url mt ed dir)
    obtain r w' where r: "download_media lib env url mt ed dir w = (r, w')"
      by (cases "download_media lib env url mt ed dir w")
    from download_media_keeps_files [OF r f] r Pair Download show ?thesis by simp
  next
    case SaveHistory
    obtain r w' where r: "save_download_history env w = (r, w')"
      by (cases "save_download_history env w")
    from save_download_history_cases [OF r] f r Pair SaveHistory show ?thesis by simp
  next
    case Restart
    with Pair f show ?thesis
      by (simp add: init_download_history_def load_download_history_def split: history_file.splits)
  qed
qed

lemma archive_run_keeps_files:
  "files w p = Some c \<Longrightarrow> files (archive_run lib ops w) p = Some c"
  by (induction ops arbitrary: w) (auto simp: archive_step_keeps_files)

lemma download_media_breaks:
  assumes "timestamped_file_name lib env url mt ed w = Some name"
    and "path_join dir name \<notin> dom (files w)" and "url \<notin> downloaded_files w"
    and "media_at env (step w) url = FailsMidway e partial"
  shows "files (snd (download_media lib env url mt ed dir w)) (path_join dir name) = Some (Media partial)"
    and "downloaded_files (snd (download_media lib env url mt ed dir w)) = downloaded_files w"
    and "fst (download_media lib env url mt ed dir w) = (case e of KeyboardInterrupt \<Rightarrow> Inl KeyboardInterrupt | Exception \<Rightarrow> Inr None)"
  using assms by (auto simp: download_media_def Let_def split: exn.splits)

text \<open>
  C9, as amended. Take a URL whose name does not depend on the clock (the last segment of
  its path is non-empty and holds a dot), with the event timestamp present. If the fetch
  breaks off after the destination file was opened, the bytes written so far stay at the
  derived path and the URL is not put into the history. After any further downloads, saves
  and restarts the file is still there unchanged, and every call for the same URL, event
  timestamp and directory takes the path-exists branch: it returns the file name, marks
  the URL as downloaded and changes nothing else, so it asks the network for nothing and
  leaves the truncated file in place.
\<close>

theorem partial_file_kept:
  assumes "named_by_url lib url"
    and "timestamped_file_name lib env url mt (Some d) w = Some name"
    and "path_join dir name \<notin> dom (files w)" and "url \<notin> downloaded_files w"
    and "media_at env (step w) url = FailsMidway e partial"
    and "v = archive_run lib ops (snd (download_media lib env url mt (Some d) dir w))"
  shows "files (snd (download_media lib env url mt (Some d) dir w)) (path_join dir name)
           = Some (Media partial) \<and>
         downloaded_files (snd (download_media lib env url mt (Some d) dir w)) = downloaded_files w \<and>
         files v (path_join dir name) = Some (Media partial) \<and>
         download_media lib env' url mt' (Some d) dir v
           = (Inr (Some name), v\<lparr>downloaded_files := insert url (downloaded_files v)\<rparr>)"
proof -
  let ?w1 = "snd (download_media lib env url mt (Some d) dir w)"
  have f1: "files ?w1 (path_join dir name) = Some (Media partial)"
    and h1: "downloaded_files ?w1 = downloaded_files w"
    using download_media_breaks [OF assms(2,3,4,5)] by simp_all
  from f1 have fv: "files v (path_join dir name) = Some (Media partial)"
    unfolding assms(6) by (rule archive_run_keeps_files)
  have n: "timestamped_file_name lib env' url mt' (Some d) v = Some name"
    using named_by_url_name [OF assms(1), of env' mt' d v env mt w] assms(2) by simp
  from fv have "path_join dir name \<in> dom (files v)" by auto
  from download_media_present [OF n this] f1 h1 fv show ?thesis by simp
qed

lemma after_broken_download_eq:
  "after_broken_download =
     empty_world\<lparr>requests := [slash_url], step := 1,
       files := [''images/2024-05-01-10-00-media_1714557600_1799.image'' \<mapsto> Media ''par''],
       log := [DownloadError slash_url ''2024-05-01-10-00-media_1714557600_1799.image'']\<rparr>"
  by (simp add: after_broken_download_def download_media_def slash_name breaking_env_simps slash_hash
      empty_world_def path_join_def str_nat_clock)

lemma undated_photo_refetched:
  "requests (snd (download_media example_lib breaking_minute_env photo_url ''image'' None ''images''
      (snd (download_media example_lib breaking_minute_env photo_url ''image'' None ''images''
              empty_world))))
     = [photo_url, photo_url]"
proof -
  have first: "download_media example_lib breaking_minute_env photo_url ''image'' None ''images''
      empty_world
     = (Inr None,
        empty_world\<lparr>requests := [photo_url], step := 1,
          files := [''images/2024-05-01-10-00-photo.jpg'' \<mapsto> Media ''par''],
          log := [DownloadError photo_url ''2024-05-01-10-00-photo.jpg'']\<rparr>)"
    by (simp add: download_media_def photo_name_now minute_env_simps minute_clock_names
        empty_world_def path_join_def)
  show ?thesis
    by (simp add: first)
       (simp add: download_media_def photo_name_now minute_env_simps minute_clock_names
        empty_world_def path_join_def)
qed

text \<open>
  C9 as stated fails in three ways. For a URL whose name is synthesized, the fetch breaks
  off and leaves the partial file, and the next call for the same URL and event
  timestamp, one second later, derives another name, finds no file and no history entry,
  and asks the network again. And for the photo, whose name is taken from the URL, a call
  for the same URL and event timestamp with another destination directory (the feed of a
  second child) does not see the partial file and asks the network again; so does a call
  without event timestamp one minute after the broken one.
\<close>

theorem partial_file_refetched_counterexample:
  "files after_broken_download ''images/2024-05-01-10-00-media_1714557600_1799.image''
     = Some (Media ''par'') \<and>
   slash_url \<notin> downloaded_files after_broken_download \<and>
   fst (download_media example_lib breaking_env slash_url ''image'' (Some may_first) ''images''
          after_broken_download) = Inr None \<and>
   requests (snd (download_media example_lib breaking_env slash_url ''image'' (Some may_first)
                    ''images'' after_broken_download)) = [slash_url, slash_url] \<and>
   requests (snd (download_media example_lib breaking_env photo_url ''image'' (Some may_first)
                    ''kid_b/images''
                    (snd (download_media example_lib breaking_env photo_url ''image''
                            (Some may_first) ''kid_a/images'' empty_world))))
     = [photo_url, photo_url] \<and>
   requests (snd (download_media example_lib breaking_minute_env photo_url ''image'' None ''images''
      (snd (download_media example_lib breaking_minute_env photo_url ''image'' None ''images''
              empty_world))))
     = [photo_url, photo_url]"
proof -
  have synthesized:
    "files after_broken_download ''images/2024-05-01-10-00-media_1714557600_1799.image''
       = Some (Media ''par'') \<and>
     slash_url \<notin> downloaded_files after_broken_download \<and>
     fst (download_media example_lib breaking_env slash_url ''image'' (Some may_first) ''images''
            after_broken_download) = Inr None \<and>
     requests (snd (download_media example_lib breaking_env slash_url ''image'' (Some may_first)
                      ''images'' after_broken_download)) = [slash_url, slash_url]"
    by (simp add: after_broken_download_eq download_media_def slash_name breaking_env_simps
        slash_hash empty_world_def path_join_def str_nat_clock)
  have first: "download_media example_lib breaking_env photo_url ''image'' (Some may_first)
      ''kid_a/images'' empty_world
     = (Inr None,
        empty_world\<lparr>requests := [photo_url], step := 1,
          files := [''kid_a/images/2024-05-01-10-00-photo.jpg'' \<mapsto> Media ''par''],
          log := [DownloadError photo_url ''2024-05-01-10-00-photo.jpg'']\<rparr>)"
    by (simp add: download_media_def photo_name_on may_names breaking_env_simps empty_world_def
        path_join_def)
  have "requests (snd (download_media example_lib breaking_env photo_url ''image''
                    (Some may_first) ''kid_b/images''
                    (snd (download_media example_lib breaking_env photo_url ''image''
                            (Some may_first) ''kid_a/images'' empty_world))))
     = [photo_url, photo_url]"
    by (simp add: first)
       (simp add: download_media_def photo_name_on may_names breaking_env_simps empty_world_def
        path_join_def)
  with synthesized undated_photo_refetched show ?thesis by simp
qed

text \<open>The photo, whose fetch breaks off; then a save, a restart and a second call.\<close>

theorem partial_file_kept_witness:
  "named_by_url example_lib photo_url \<and>
   timestamped_file_name example_lib breaking_env photo_url ''image'' (Some may_first) empty_world
     = Some ''2024-05-01-10-00-photo.jpg'' \<and>
   path_join ''images'' ''2024-05-01-10-00-photo.jpg'' \<notin> dom (files empty_world) \<and>
   photo_url \<notin> downloaded_files empty_world \<and>
   media_at breaking_env (step empty_world) photo_url = FailsMidway Exception ''par'' \<and>
   files after_broken_photo (path_join ''images'' ''2024-05-01-10-00-photo.jpg'') = Some (Media ''par'') \<and>
   download_media example_lib quiet_env photo_url ''image'' (Some may_first) ''images'' after_broken_photo
     = (Inr (Some ''2024-05-01-10-00-photo.jpg''),
        after_broken_photo\<lparr>downloaded_files := insert photo_url (downloaded_files after_broken_photo)\<rparr>)"
proof -
  have a: "path_join ''images'' ''2024-05-01-10-00-photo.jpg'' \<notin> dom (files empty_world)"
    and b: "photo_url \<notin> downloaded_files empty_world"
    and c: "media_at breaking_env (step empty_world) photo_url = FailsMidway Exception ''par''"
    by (simp_all add: empty_world_def breaking_env_simps)
  from partial_file_kept [OF photo_named photo_name a b c after_broken_photo_def,
      of quiet_env "''image''"]
  show ?thesis using photo_named photo_name a b c by simp
qed

section \<open>At most one completed fetch per URL\<close>

lemma download_media_covers:
  assumes "history_covers w" and "download_media lib env url mt ed dir w = (r, w')"
  shows "history_covers w'"
  using assms
  by (auto simp: download_media_def Let_def history_covers_def
      dest!: save_download_history_cases split: dm_splits)

lemma save_covers:
  "history_covers w \<Longrightarrow> history_covers (snd (save_download_history env w))"
  using save_download_history_cases [of env w "fst (save_download_history env w)"
      "snd (save_download_history env w)"]
  by (simp add: history_covers_def)

lemma archive_run_covers:
  "history_covers w \<Longrightarrow> list_all (\<lambda>(env, op). op \<noteq> Restart) ops \<Longrightarrow>
   history_covers (archive_run lib ops w)"
proof (induction ops arbitrary: w)
  case Nil
  then show ?case by simp
next
  case (Cons op ops)
  obtain env aop where op: "op = (env, aop)" by (cases op)
  have "history_covers (archive_step lib op w)"
  proof (cases aop)
    case (Download url mt ed dir)
    with op Cons.prems(1)
      download_media_covers [of w lib env url mt ed dir "fst (download_media lib env url mt ed dir w)"
        "snd (download_media lib env url mt ed dir w)"]
    show ?thesis by simp
  next
    case SaveHistory
    with op Cons.prems(1) save_covers show ?thesis by simp
  next
    case Restart
    with op Cons.prems(2) show ?thesis by simp
  qed
  with Cons show ?case by simp
qed

lemma save_saved_covers:
  assumes "saved_history_covers w" and "saves_succeed env"
  shows "saved_history_covers (snd (save_download_history env w))"
  using assms
  by (auto simp: saved_history_covers_def saves_succeed_def save_download_history_def Let_def
      stored_history_def split: history_file.splits)

lemma download_media_saved_covers:
  assumes "saved_history_covers w" and "saves_succeed env"
  shows "saved_history_covers (snd (download_media lib env url mt ed dir w))"
  using assms
  by (auto simp: download_media_def Let_def saved_history_covers_def saves_succeed_def
      save_download_history_def stored_history_def
      split: dm_splits history_file.splits)

lemma restart_saved_covers:
  "saved_history_covers w \<Longrightarrow> saved_history_covers (init_download_history w)"
  by (auto simp: saved_history_covers_def init_download_history_def load_download_history_def
      stored_history_def split: history_file.splits)

lemma archive_run_saved_covers:
  "saved_history_covers w \<Longrightarrow> list_all (\<lambda>(env, op). saves_succeed env) ops \<Longrightarrow>
   saved_history_covers (archive_run lib ops w)"
proof (induction ops arbitrary: w)
  case Nil
  then show ?case by simp
next
  case (Cons op ops)
  obtain env aop where op: "op = (env, aop)" by (cases op)
  with Cons.prems(2) have s: "saves_succeed env" by simp
  have "saved_history_covers (archive_step lib op w)"
    using op Cons.prems(1) s
    by (cases aop) (simp_all add: download_media_saved_covers save_saved_covers restart_saved_covers)
  with Cons show ?case by simp
qed

lemma download_media_already:
  assumes "already_downloaded lib env url mt ed dir w"
  shows "requests (snd (download_media lib env url mt ed dir w)) = requests w"
    and "completed (snd (download_media lib env url mt ed dir w)) = completed w"
    and "files (snd (download_media lib env url mt ed dir w)) = files w"
    and "fst (download_media lib env url mt ed dir w) =
           (case timestamped_file_name lib env url mt ed w of
              None \<Rightarrow> Inl Exception
            | Some name \<Rightarrow> Inr (Some name))"
  using assms
  by (auto simp: already_downloaded_def download_media_def Let_def split: option.splits)

text \<open>
  C1, as amended. When the URL is in the history or the derived destination path exists,
  \<open>download_media\<close> asks the network for nothing, completes no fetch, leaves the archive
  as it is and returns the file name it derives at this call. When the name does not
  depend on the clock (event timestamp present, last path segment non-empty with a dot),
  that is the name returned by any earlier successful call for the same event timestamp
  and URL. And no URL is fetched to completion twice: within one process always, and over
  the restarts of a lifetime as long as every write of the history file succeeds.
\<close>

theorem download_idempotent:
  "(already_downloaded lib env url mt ed dir w \<longrightarrow>
      requests (snd (download_media lib env url mt ed dir w)) = requests w \<and>
      completed (snd (download_media lib env url mt ed dir w)) = completed w \<and>
      files (snd (download_media lib env url mt ed dir w)) = files w \<and>
      fst (download_media lib env url mt ed dir w) =
        (case timestamped_file_name lib env url mt ed w of
           None \<Rightarrow> Inl Exception
         | Some name \<Rightarrow> Inr (Some name))) \<and>
   (already_downloaded lib env url mt (Some d) dir w \<and> named_by_url lib url \<and>
    download_media lib env0 url mt0 (Some d) dir0 w0 = (Inr (Some name0), w0') \<longrightarrow>
      fst (download_media lib env url mt (Some d) dir w) = Inr (Some name0)) \<and>
   (history_covers w \<and> list_all (\<lambda>(env, op). op \<noteq> Restart) ops \<longrightarrow>
      distinct (completed (archive_run lib ops w))) \<and>
   (saved_history_covers w \<and> list_all (\<lambda>(env, op). saves_succeed env) ops \<longrightarrow>
      distinct (completed (archive_run lib ops w)))"
proof (intro conjI impI)
  assume "already_downloaded lib env url mt ed dir w"
  from download_media_already [OF this]
  show "requests (snd (download_media lib env url mt ed dir w)) = requests w"
    and "completed (snd (download_media lib env url mt ed dir w)) = completed w"
    and "files (snd (download_media lib env url mt ed dir w)) = files w"
    and "fst (download_media lib env url mt ed dir w) =
        (case timestamped_file_name lib env url mt ed w of
           None \<Rightarrow> Inl Exception
         | Some name \<Rightarrow> Inr (Some name))"
    by simp_all
next
  assume h: "already_downloaded lib env url mt (Some d) dir w \<and> named_by_url lib url \<and>
    download_media lib env0 url mt0 (Some d) dir0 w0 = (Inr (Some name0), w0')"
  then have "timestamped_file_name lib env0 url mt0 (Some d) w0 = Some name0"
    using download_media_returns_name by blast
  with h have "timestamped_file_name lib env url mt (Some d) w = Some name0"
    using named_by_url_name [of lib url env mt d w env0 mt0 w0] by simp
  with h download_media_already(4) [of lib env url mt "Some d" dir w]
  show "fst (download_media lib env url mt (Some d) dir w) = Inr (Some name0)"
    by simp
next
  assume "history_covers w \<and> list_all (\<lambda>(env, op). op \<noteq> Restart) ops"
  then have "history_covers (archive_run lib ops w)"
    using archive_run_covers by blast
  then show "distinct (completed (archive_run lib ops w))"
    by (simp add: history_covers_def)
next
  assume "saved_history_covers w \<and> list_all (\<lambda>(env, op). saves_succeed env) ops"
  then have "saved_history_covers (archive_run lib ops w)"
    using archive_run_saved_covers by blast
  then show "distinct (completed (archive_run lib ops w))"
    by (simp add: saved_history_covers_def)
qed

lemma after_photo_download_eq:
  "download_media example_lib quiet_env photo_url ''image'' (Some may_first) ''images'' empty_world =
     (Inr (Some ''2024-05-01-10-00-photo.jpg''),
      empty_world\<lparr>requests := [photo_url], step := 2,
        files := [''images/2024-05-01-10-00-photo.jpg'' \<mapsto> Media ''bytes''],
        downloaded_files := {photo_url}, completed := [photo_url],
        history_file := History {photo_url},
        log := [Downloaded ''2024-05-01-10-00-photo.jpg'']\<rparr>)"
  by (simp add: download_media_def photo_name_on may_names quiet_env_simps
      empty_world_def path_join_def save_download_history_def Let_def)

lemma quiet_env_saves: "saves_succeed quiet_env"
  by (simp add: saves_succeed_def quiet_env_simps)

lemma empty_world_covers: "history_covers empty_world" "saved_history_covers empty_world"
  by (simp_all add: history_covers_def saved_history_covers_def stored_history_def empty_world_def)

text \<open>The photo downloaded once and asked for again; one process that meets it twice;
  two processes that save the history.\<close>

theorem download_idempotent_witness:
  "download_media example_lib quiet_env photo_url ''image'' (Some may_first) ''images'' empty_world
     = (Inr (Some ''2024-05-01-10-00-photo.jpg''), after_photo_download) \<and>
   already_downloaded example_lib quiet_env photo_url ''image'' (Some may_first) ''images''
     after_photo_download \<and>
   named_by_url example_lib photo_url \<and>
   fst (download_media example_lib quiet_env photo_url ''image'' (Some may_first) ''images''
          after_photo_download) = Inr (Some ''2024-05-01-10-00-photo.jpg'') \<and>
   requests (snd (download_media example_lib quiet_env photo_url ''image'' (Some may_first) ''images''
                    after_photo_download)) = requests after_photo_download \<and>
   history_covers empty_world \<and> list_all (\<lambda>(env, op). op \<noteq> Restart) one_run \<and>
   distinct (completed (archive_run example_lib one_run empty_world)) \<and>
   saved_history_covers empty_world \<and> list_all (\<lambda>(env, op). saves_succeed env) two_saved_runs \<and>
   distinct (completed (archive_run example_lib two_saved_runs empty_world))"
proof -
  have first: "download_media example_lib quiet_env photo_url ''image'' (Some may_first) ''images''
      empty_world = (Inr (Some ''2024-05-01-10-00-photo.jpg''), after_photo_download)"
    by (simp add: after_photo_download_def after_photo_download_eq)
  have already: "already_downloaded example_lib quiet_env photo_url ''image'' (Some may_first)
      ''images'' after_photo_download"
    by (simp add: already_downloaded_def after_photo_download_def after_photo_download_eq)
  have r1: "list_all (\<lambda>(env, op). op \<noteq> Restart) one_run"
    by (simp add: one_run_def)
  have r2: "list_all (\<lambda>(env, op). saves_succeed env) two_saved_runs"
    by (simp add: two_saved_runs_def quiet_env_saves)
  note inst = download_idempotent [where lib = example_lib and env = quiet_env and url = photo_url
      and mt = "''image''" and ed = "Some may_first" and d = may_first and dir = "''images''"
      and ?env0.0 = quiet_env and ?mt0.0 = "''image''"
      and ?dir0.0 = "''images''" and ?w0.0 = empty_world and ?name0.0 = "''2024-05-01-10-00-photo.jpg''"
      and w0' = after_photo_download]
  from inst [where w = after_photo_download and ops = "[]"] first already photo_named
  have c1: "fst (download_media example_lib quiet_env photo_url ''image'' (Some may_first) ''images''
          after_photo_download) = Inr (Some ''2024-05-01-10-00-photo.jpg'') \<and>
     requests (snd (download_media example_lib quiet_env photo_url ''image'' (Some may_first) ''images''
                    after_photo_download)) = requests after_photo_download"
    by (simp add: photo_name_on may_names)
  from inst [where w = empty_world and ops = one_run] r1 empty_world_covers
  have c2: "distinct (completed (archive_run example_lib one_run empty_world))"
    by simp
  from inst [where w = empty_world and ops = two_saved_runs] r2 empty_world_covers
  have c3: "distinct (completed (archive_run example_lib two_saved_runs empty_world))"
    by simp
  show ?thesis
    using first already photo_named r1 r2 empty_world_covers c1 c2 c3 by simp
qed

lemma undated_photo_known:
  "fst (download_media example_lib quiet_minute_env photo_url ''image'' None ''images'' empty_world)
     = Inr (Some ''2024-05-01-10-00-photo.jpg'') \<and>
   fst (download_media example_lib quiet_minute_env photo_url ''image'' None ''images''
          (snd (download_media example_lib quiet_minute_env photo_url ''image'' None ''images''
                  empty_world)))
     = Inr (Some ''2024-05-01-10-02-photo.jpg'')"
proof -
  have first: "download_media example_lib quiet_minute_env photo_url ''image'' None ''images''
      empty_world =
     (Inr (Some ''2024-05-01-10-00-photo.jpg''),
      empty_world\<lparr>requests := [photo_url], step := 2,
        files := [''images/2024-05-01-10-00-photo.jpg'' \<mapsto> Media ''bytes''],
        downloaded_files := {photo_url}, completed := [photo_url],
        history_file := History {photo_url},
        log := [Downloaded ''2024-05-01-10-00-photo.jpg'']\<rparr>)"
    by (simp add: download_media_def photo_name_now minute_env_simps minute_clock_names
        empty_world_def path_join_def save_download_history_def Let_def)
  show ?thesis
    by (simp add: first)
       (simp add: download_media_def photo_name_now minute_env_simps minute_clock_names
        empty_world_def path_join_def)
qed

text \<open>
  C1 as stated fails in three ways. For a URL whose name is synthesized, the call that
  finds the URL in the history returns another file name than the successful download two
  seconds before. And when the history cannot be written, a second process fetches the
  photo again for an entry of another day. And without an event timestamp the call that
  finds the photo in the history returns a name two minutes later than the download's.
\<close>

theorem download_idempotent_counterexample:
  "fst (download_media example_lib quiet_env slash_url ''image'' (Some may_first) ''images''
          empty_world) = Inr (Some ''2024-05-01-10-00-media_1714557600_1799.image'') \<and>
   slash_url \<in> downloaded_files after_first_download \<and>
   fst (download_media example_lib quiet_env slash_url ''image'' (Some may_first) ''images''
          after_first_download) = Inr (Some ''2024-05-01-10-00-media_1714557602_1799.image'') \<and>
   completed (archive_run example_lib two_runs empty_world) = [photo_url, photo_url] \<and>
   fst (download_media example_lib quiet_minute_env photo_url ''image'' None ''images'' empty_world)
     = Inr (Some ''2024-05-01-10-00-photo.jpg'') \<and>
   fst (download_media example_lib quiet_minute_env photo_url ''image'' None ''images''
          (snd (download_media example_lib quiet_minute_env photo_url ''image'' None ''images''
                  empty_world)))
     = Inr (Some ''2024-05-01-10-02-photo.jpg'')"
proof -
  have first: "download_media example_lib quiet_env slash_url ''image'' (Some may_first) ''images''
      empty_world =
     (Inr (Some ''2024-05-01-10-00-media_1714557600_1799.image''),
      empty_world\<lparr>requests := [slash_url], step := 2,
        files := [''images/2024-05-01-10-00-media_1714557600_1799.image'' \<mapsto> Media ''bytes''],
        downloaded_files := {slash_url}, completed := [slash_url],
        history_file := History {slash_url},
        log := [Downloaded ''2024-05-01-10-00-media_1714557600_1799.image'']\<rparr>)"
    by (simp add: download_media_def slash_name quiet_env_simps slash_hash str_nat_clock
        empty_world_def path_join_def save_download_history_def Let_def)
  have second: "fst (download_media example_lib quiet_env slash_url ''image'' (Some may_first)
      ''images'' after_first_download) = Inr (Some ''2024-05-01-10-00-media_1714557602_1799.image'')"
    by (simp add: after_first_download_def first)
       (simp add: download_media_def slash_name quiet_env_simps slash_hash str_nat_clock
        empty_world_def path_join_def)
  have nosave: "write_at nosave_env i history_path = WriteFails Exception"
    "media_at nosave_env i url = Completes ''bytes''" for i url
    by (simp_all add: nosave_env_def quiet_env_def)
  have runs: "completed (archive_run example_lib two_runs empty_world) = [photo_url, photo_url]"
    by (simp add: two_runs_def download_media_def photo_name_on may_names nosave
        empty_world_def path_join_def save_download_history_def Let_def
        init_download_history_def load_download_history_def)
  show ?thesis
    using first second runs undated_photo_known by (simp add: after_first_download_def)
qed

section \<open>A failed fetch stays local\<close>

lemma recorded_in_history_mono:
  "recorded_in_history records w \<Longrightarrow> downloaded_files w \<subseteq> downloaded_files w' \<Longrightarrow>
   recorded_in_history records w'"
  by (auto simp: recorded_in_history_def list_all_iff)

lemma download_media_result:
  assumes "never_interrupted env" and "url_path lib url \<noteq> None"
  obtains x w' where "download_media lib env url mt ed dir w = (Inr x, w')"
proof -
  obtain r w' where r: "download_media lib env url mt ed dir w = (r, w')"
    by (cases "download_media lib env url mt ed dir w")
  show thesis
  proof (cases r)
    case (Inl e)
    with r download_media_calm [OF assms(1), of lib url mt ed dir w w']
      download_media_exception [of lib env url mt ed dir w w'] assms(2)
    show ?thesis by (cases e) auto
  next
    case (Inr x)
    with r that show ?thesis by simp
  qed
qed

lemma download_ref_ok:
  assumes calm: "never_interrupted env" and ok: "ref_ok lib m key"
    and rec: "recorded_in_history records w"
  shows "\<exists>records' w'. download_ref lib env m ed (key, mt, dir) records w = (Inr records', w') \<and>
           recorded_in_history records' w'"
proof (cases "truthy (dict_get_none m key)")
  case False
  with rec show ?thesis by (simp add: download_ref_def)
next
  case True
  with ok obtain url where url: "dict_get_none m key = JStr url" "url_path lib url \<noteq> None"
    by (auto simp: ref_ok_def split: json.splits)
  from download_media_result [OF calm url(2), of mt ed dir w] obtain x w1 where
    dm: "download_media lib env url mt ed dir w = (Inr x, w1)"
    by blast
  from download_media_history_grows [OF dm] rec have rec1: "recorded_in_history records w1"
    by (rule recorded_in_history_mono [rotated])
  show ?thesis
  proof (cases x)
    case None
    with True url dm rec1 show ?thesis by (simp add: download_ref_def)
  next
    case (Some f)
    with dm download_media_returns_name [of lib env url mt ed dir w f w1]
    have "url \<in> downloaded_files w1" by simp
    with Some True url dm rec1 show ?thesis
      by (simp add: download_ref_def recorded_in_history_def)
  qed
qed

lemma download_refs_ok:
  assumes calm: "never_interrupted env"
  shows "list_all (\<lambda>ref. ref_ok lib m (fst ref)) refs \<Longrightarrow> recorded_in_history records w \<Longrightarrow>
    \<exists>records' w'. download_refs lib env m ed refs records w = (Inr records', w') \<and>
           recorded_in_history records' w'"
proof (induction refs arbitrary: records w)
  case Nil
  then show ?case by simp
next
  case (Cons ref refs)
  obtain key mt dir where ref: "ref = (key, mt, dir)" by (cases ref)
  with Cons.prems(1) have "ref_ok lib m key" by simp
  from download_ref_ok [OF calm this Cons.prems(2), of ed mt dir] obtain records1 w1 where
    r1: "download_ref lib env m ed (key, mt, dir) records w = (Inr records1, w1)"
    and h1: "recorded_in_history records1 w1"
    by blast
  from Cons.prems(1) have "list_all (\<lambda>ref. ref_ok lib m (fst ref)) refs" by simp
  from Cons.IH [OF this h1] r1 ref show ?case by simp
qed

lemma parse_event_date_ok:
  assumes "well_formed_entry lib e"
  shows "\<exists>ed w'. parse_event_date lib env e w = (Inr ed, w') \<and>
           downloaded_files w' = downloaded_files w \<and> files w' = files w \<and> step w' = step w"
  using assms
  by (auto simp: well_formed_entry_def parse_event_date_def Let_def split: json.splits option.splits)

lemma entry_file_name_ok:
  assumes "well_formed_entry lib e"
  shows "\<exists>name. entry_file_name lib env e eid ed w = Some name"
  using assms
  by (auto simp: well_formed_entry_def entry_file_name_def Let_def split: json.splits)

lemma media_refs_ok:
  "list_all (ref_ok lib m) [''image_url'', ''thumbnail_url'', ''video_thumbnail_url'', ''video_url'']
   \<Longrightarrow> list_all (\<lambda>ref. ref_ok lib m (fst ref)) (media_refs im vd)"
  by (simp add: media_refs_def)

lemma entry_downloads_ok:
  assumes calm: "never_interrupted env" and wf: "well_formed_entry lib e"
  shows "\<exists>downloads w'.
           (if truthy (dict_get_none e ''media'') then
              (case dict_get_none e ''media'' of
                 JObj m \<Rightarrow> download_refs lib env m ed (media_refs im vd) [] w
               | _ \<Rightarrow> (Inl Exception, w))
            else (Inr [], w)) = (Inr downloads, w') \<and> recorded_in_history downloads w'"
proof (cases "truthy (dict_get_none e ''media'')")
  case False
  then show ?thesis by (simp add: recorded_in_history_def)
next
  case True
  with wf obtain m where m: "dict_get_none e ''media'' = JObj m"
    and ok: "list_all (ref_ok lib m) [''image_url'', ''thumbnail_url'', ''video_thumbnail_url'', ''video_url'']"
    by (auto simp: well_formed_entry_def split: json.splits)
  have "recorded_in_history [] w" by (simp add: recorded_in_history_def)
  from download_refs_ok [OF calm media_refs_ok [OF ok, of im vd] this, where ed = ed] True m
  show ?thesis by simp
qed

lemma process_feed_entry_ok:
  assumes calm: "never_interrupted env" and wr: "writes_succeed env"
    and wf: "well_formed_entry lib e"
  shows "\<exists>p w' name. process_feed_entry lib env (JObj e) fd im vd w = (Inr p, w') \<and>
           files w' (path_join fd name) = Some (EntryDoc p) \<and>
           recorded_in_history (pe_downloaded_media p) w'"
proof -
  from parse_event_date_ok [OF wf, where env = env and w = w] obtain ed w1 where
    ed: "parse_event_date lib env e w = (Inr ed, w1)" by blast
  from entry_downloads_ok [OF calm wf, where ed = ed and im = im and vd = vd and w = w1]
  obtain downloads w2 where
    dl: "(if truthy (dict_get_none e ''media'') then
              (case dict_get_none e ''media'' of
                 JObj m \<Rightarrow> download_refs lib env m ed (media_refs im vd) [] w1
               | _ \<Rightarrow> (Inl Exception, w1))
            else (Inr [], w1)) = (Inr downloads, w2)"
    and rec: "recorded_in_history downloads w2"
    by blast
  from entry_file_name_ok [OF wf, where env = env and eid = "derive_entry_id lib env e"
      and ed = ed and w = w2]
  obtain name where
    name: "entry_file_name lib env e (derive_entry_id lib env e) ed w2 = Some name" by blast
  have written: "write_at env (step w2) (path_join fd name) = Written"
    using wr by (simp add: writes_succeed_def)
  let ?p = "\<lparr>pe_id = derive_entry_id lib env e, pe_original_data = JObj e,
              pe_processed_timestamp = isoformat lib (now_at env (step w1)),
              pe_downloaded_media = downloads\<rparr>"
  let ?w3 = "w2\<lparr>step := Suc (step w2), files := (files w2)(path_join fd name \<mapsto> EntryDoc ?p)\<rparr>"
  have run: "process_feed_entry lib env (JObj e) fd im vd w = (Inr ?p, ?w3)"
    using ed dl name written by (simp add: process_feed_entry_def Let_def)
  have "files ?w3 (path_join fd name) = Some (EntryDoc ?p)"
    and "recorded_in_history (pe_downloaded_media ?p) ?w3"
    using rec by (simp_all add: recorded_in_history_def)
  with run show ?thesis by blast
qed

lemma process_entries_ok:
  assumes calm: "never_interrupted env" and wr: "writes_succeed env"
  shows "well_formed_entries lib es \<Longrightarrow>
    \<exists>all' w'. process_entries lib env fd im vd es all_entries w = (Inr (), all', w') \<and>
      length all' = length all_entries + length es"
proof (induction es arbitrary: all_entries w)
  case Nil
  then show ?case by simp
next
  case (Cons entry es)
  then obtain e where e: "entry = JObj e" "well_formed_entry lib e" "well_formed_entries lib es"
    by (auto simp: well_formed_entries_def split: json.splits)
  from process_feed_entry_ok [OF calm wr e(2), where fd = fd and im = im and vd = vd and w = w]
  obtain p w1 where
    p: "process_feed_entry lib env (JObj e) fd im vd w = (Inr p, w1)" by blast
  from Cons.IH [OF e(3), where all_entries = "all_entries @ [p]" and w = w1] p e(1)
  show ?case by simp
qed

lemma download_media_failed:
  assumes "timestamped_file_name lib env url mt ed w = Some name"
    and "\<not> already_downloaded lib env url mt ed dir w"
    and "media_at env (step w) url = Fails Exception \<or>
         media_at env (step w) url = FailsMidway Exception partial"
  shows "fst (download_media lib env url mt ed dir w) = Inr None"
    and "downloaded_files (snd (download_media lib env url mt ed dir w)) = downloaded_files w"
    and "history_file (snd (download_media lib env url mt ed dir w)) = history_file w"
    and "completed (snd (download_media lib env url mt ed dir w)) = completed w"
  using assms by (auto simp: already_downloaded_def download_media_def Let_def)

lemma download_ref_skips:
  assumes "dict_get_none m key = JStr url" and "url \<noteq> []"
    and "download_media lib env url mt ed dir w = (Inr None, w1)"
  shows "download_ref lib env m ed (key, mt, dir) records w = (Inr records, w1)"
  using assms by (simp add: download_ref_def)

text \<open>
  C8. A fetch that fails with an exception (before or after the destination file was
  opened) makes \<open>download_media\<close> return \<open>None\<close> without raising, and leaves the
  history in memory and on disk as they were. The reference then adds no record and the
  next reference is processed from the state the failed call left. A well-formed entry
  is processed to its end whatever its fetches do, as long as nothing is interrupted and
  the entry file can be written: the call returns the processed entry, the entry file
  holds it, and every media record in it names a URL that is in the history, so a
  reference whose fetch failed has no record. And the loop over a page of well-formed
  entries processes every one of them.
\<close>

theorem failed_fetch_contained:
  "(timestamped_file_name lib env url mt ed w = Some name \<and>
    \<not> already_downloaded lib env url mt ed dir w \<and>
    (media_at env (step w) url = Fails Exception \<or>
     media_at env (step w) url = FailsMidway Exception partial) \<longrightarrow>
      fst (download_media lib env url mt ed dir w) = Inr None \<and>
      downloaded_files (snd (download_media lib env url mt ed dir w)) = downloaded_files w \<and>
      history_file (snd (download_media lib env url mt ed dir w)) = history_file w \<and>
      completed (snd (download_media lib env url mt ed dir w)) = completed w) \<and>
   (dict_get_none m key = JStr url \<and> url \<noteq> [] \<and>
    download_media lib env url mt ed dir w = (Inr None, w1) \<longrightarrow>
      download_ref lib env m ed (key, mt, dir) records w = (Inr records, w1)) \<and>
   (never_interrupted env \<and> writes_succeed env \<and> well_formed_entry lib e \<longrightarrow>
      (\<exists>p w' entry_name.
         process_feed_entry lib env (JObj e) fd im vd w = (Inr p, w') \<and>
         files w' (path_join fd entry_name) = Some (EntryDoc p) \<and>
         recorded_in_history (pe_downloaded_media p) w')) \<and>
   (never_interrupted env \<and> writes_succeed env \<and> well_formed_entries lib es \<longrightarrow>
      (\<exists>all' w'.
         process_entries lib env fd im vd es all_entries w = (Inr (), all', w') \<and>
         length all' = length all_entries + length es))"
proof (intro conjI impI)
  assume h: "timestamped_file_name lib env url mt ed w = Some name \<and>
    \<not> already_downloaded lib env url mt ed dir w \<and>
    (media_at env (step w) url = Fails Exception \<or>
     media_at env (step w) url = FailsMidway Exception partial)"
  then have n: "timestamped_file_name lib env url mt ed w = Some name"
    and a: "\<not> already_downloaded lib env url mt ed dir w"
    and f: "media_at env (step w) url = Fails Exception \<or>
            media_at env (step w) url = FailsMidway Exception partial"
    by simp_all
  from download_media_failed [OF n a f]
  show "fst (download_media lib env url mt ed dir w) = Inr None"
    and "downloaded_files (snd (download_media lib env url mt ed dir w)) = downloaded_files w"
    and "history_file (snd (download_media lib env url mt ed dir w)) = history_file w"
    and "completed (snd (download_media lib env url mt ed dir w)) = completed w"
    by simp_all
next
  assume "dict_get_none m key = JStr url \<and> url \<noteq> [] \<and>
    download_media lib env url mt ed dir w = (Inr None, w1)"
  then show "download_ref lib env m ed (key, mt, dir) records w = (Inr records, w1)"
    using download_ref_skips by blast
next
  assume "never_interrupted env \<and> writes_succeed env \<and> well_formed_entry lib e"
  then show "\<exists>p w' entry_name.
         process_feed_entry lib env (JObj e) fd im vd w = (Inr p, w') \<and>
         files w' (path_join fd entry_name) = Some (EntryDoc p) \<and>
         recorded_in_history (pe_downloaded_media p) w'"
    using process_feed_entry_ok by blast
next
  assume "never_interrupted env \<and> writes_succeed env \<and> well_formed_entries lib es"
  then show "\<exists>all' w'.
         process_entries lib env fd im vd es all_entries w = (Inr (), all', w') \<and>
         length all' = length all_entries + length es"
    using process_entries_ok by blast
qed

lemma breaking_env_calm: "never_interrupted breaking_env" "writes_succeed breaking_env"
  by (simp_all add: never_interrupted_def writes_succeed_def breaking_env_def quiet_env_def)

lemma example_entries_well_formed:
  "well_formed_entry example_lib photo_entry" "well_formed_entry example_lib (plain_entry oid)"
  by (simp_all add: well_formed_entry_def photo_entry_def plain_entry_def photo_media_def
      dict_get_none_def dict_get_default_def dict_get_def ref_ok_def example_lib_def
      example_url_path_def)

lemma broken_photo_download:
  "download_media example_lib breaking_env photo_url ''image'' (Some may_first) ''images'' empty_world
     = (Inr None,
        empty_world\<lparr>requests := [photo_url], step := 1,
          files := [''images/2024-05-01-10-00-photo.jpg'' \<mapsto> Media ''par''],
          log := [DownloadError photo_url ''2024-05-01-10-00-photo.jpg'']\<rparr>)"
  by (simp add: download_media_def photo_name_on may_names breaking_env_simps empty_world_def
      path_join_def)

lemma photo_entry_facts:
  "parse_event_date example_lib env photo_entry w = (Inr (Some may_first), w)"
  "derive_entry_id example_lib env photo_entry = JStr ''p1''"
  "dict_get_none photo_entry ''media'' = JObj photo_media"
  "dict_get_none photo_media ''image_url'' = JStr photo_url"
  "dict_get_none photo_media ''thumbnail_url'' = JNull"
  "dict_get_none photo_media ''video_thumbnail_url'' = JNull"
  "dict_get_none photo_media ''video_url'' = JNull"
  "photo_media \<noteq> []" "photo_url \<noteq> []"
  by (simp_all add: photo_entry_def photo_media_def photo_url_def dict_get_none_def dict_get_def
      parse_event_date_def example_lib_def example_fromisoformat_def derive_entry_id_def
      dict_get_default_def)

lemma photo_entry_file:
  "entry_file_name example_lib env photo_entry (JStr ''p1'') (Some may_first) w
     = Some ''2024-05-01-10-00-00-unknown-unknown-p1.json''"
  by (simp add: entry_file_name_def photo_entry_def example_lib_def dict_get_default_def dict_get_def
     format_json_def strftime_second_def strftime_minute_def pad_def may_first_def str_nat_small
     str_nat_large digit_char_def)

lemma broken_photo_run_eq:
  "map_sum id pe_downloaded_media (fst broken_photo_run) = Inr [] \<and>
   photo_url \<notin> downloaded_files (snd broken_photo_run) \<and>
   files (snd broken_photo_run) ''images/2024-05-01-10-00-photo.jpg'' = Some (Media ''par'')"
  by (simp add: broken_photo_run_def process_feed_entry_def Let_def photo_entry_facts media_refs_def
      download_ref_def broken_photo_download photo_entry_file)
     (simp add: breaking_env_def quiet_env_def empty_world_def path_join_def)

text \<open>The photo entry while every fetch breaks off: the download returns \<open>None\<close>, the
  entry is written without a media record, and the page of two entries is processed.\<close>

theorem failed_fetch_contained_witness:
  "timestamped_file_name example_lib breaking_env photo_url ''image'' (Some may_first) empty_world
     = Some ''2024-05-01-10-00-photo.jpg'' \<and>
   \<not> already_downloaded example_lib breaking_env photo_url ''image'' (Some may_first) ''images''
       empty_world \<and>
   media_at breaking_env (step empty_world) photo_url = FailsMidway Exception ''par'' \<and>
   fst (download_media example_lib breaking_env photo_url ''image'' (Some may_first) ''images''
          empty_world) = Inr None \<and>
   downloaded_files (snd (download_media example_lib breaking_env photo_url ''image''
                            (Some may_first) ''images'' empty_world)) = {} \<and>
   dict_get_none photo_media ''image_url'' = JStr photo_url \<and>
   download_ref example_lib breaking_env photo_media (Some may_first)
       (''image_url'', ''image'', ''images'') [] empty_world
     = (Inr [], snd (download_media example_lib breaking_env photo_url ''image'' (Some may_first)
                      ''images'' empty_world)) \<and>
   never_interrupted breaking_env \<and> writes_succeed breaking_env \<and>
   well_formed_entry example_lib photo_entry \<and>
   (\<exists>p w' entry_name.
      broken_photo_run = (Inr p, w') \<and>
      files w' (path_join ''feeds'' entry_name) = Some (EntryDoc p) \<and>
      recorded_in_history (pe_downloaded_media p) w') \<and>
   map_sum id pe_downloaded_media (fst broken_photo_run) = Inr [] \<and>
   photo_url \<notin> downloaded_files (snd broken_photo_run) \<and>
   well_formed_entries example_lib two_entries \<and>
   (\<exists>all' w'.
      process_entries example_lib breaking_env ''feeds'' ''images'' ''videos'' two_entries []
        empty_world = (Inr (), all', w') \<and>
      length all' = 2)"
proof -
  have n: "timestamped_file_name example_lib breaking_env photo_url ''image'' (Some may_first)
             empty_world = Some ''2024-05-01-10-00-photo.jpg''"
    by (rule photo_name)
  have a: "\<not> already_downloaded example_lib breaking_env photo_url ''image'' (Some may_first)
             ''images'' empty_world"
    by (simp add: already_downloaded_def n) (simp add: empty_world_def)
  have f: "media_at breaking_env (step empty_world) photo_url = FailsMidway Exception ''par''"
    by (simp add: breaking_env_simps)
  have wfs: "well_formed_entries example_lib two_entries"
    by (simp add: well_formed_entries_def two_entries_def example_entries_well_formed)
  have dm: "download_media example_lib breaking_env photo_url ''image'' (Some may_first) ''images''
      empty_world = (Inr None, snd (download_media example_lib breaking_env photo_url ''image''
        (Some may_first) ''images'' empty_world))"
    by (simp add: broken_photo_download)
  note inst = failed_fetch_contained [where lib = example_lib and env = breaking_env
      and url = photo_url and mt = "''image''" and ed = "Some may_first" and w = empty_world
      and name = "''2024-05-01-10-00-photo.jpg''" and dir = "''images''" and partial = "''par''"
      and m = photo_media and key = "''image_url''" and records = "[]"
      and ?w1.0 = "snd (download_media example_lib breaking_env photo_url ''image''
        (Some may_first) ''images'' empty_world)"
      and e = photo_entry and fd = "''feeds''" and im = "''images''" and vd = "''videos''"
      and es = two_entries and all_entries = "[]"]
  from inst n a f have c1:
    "fst (download_media example_lib breaking_env photo_url ''image'' (Some may_first) ''images''
          empty_world) = Inr None \<and>
     downloaded_files (snd (download_media example_lib breaking_env photo_url ''image''
                            (Some may_first) ''images'' empty_world)) = {}"
    by (simp add: empty_world_def)
  from inst dm photo_entry_facts(4,9) have c2:
    "download_ref example_lib breaking_env photo_media (Some may_first)
       (''image_url'', ''image'', ''images'') [] empty_world
     = (Inr [], snd (download_media example_lib breaking_env photo_url ''image'' (Some may_first)
                      ''images'' empty_world))"
    by simp
  from inst breaking_env_calm example_entries_well_formed(1) have c3:
    "\<exists>p w' entry_name.
      broken_photo_run = (Inr p, w') \<and>
      files w' (path_join ''feeds'' entry_name) = Some (EntryDoc p) \<and>
      recorded_in_history (pe_downloaded_media p) w'"
    by (simp add: broken_photo_run_def)
  from inst breaking_env_calm wfs have c4:
    "\<exists>all' w'.
      process_entries example_lib breaking_env ''feeds'' ''images'' ''videos'' two_entries []
        empty_world = (Inr (), all', w') \<and>
      length all' = 2"
    by (simp add: two_entries_def numeral_2_eq_2 del: process_entries.simps)
  from n a f c1 c2 c3 c4 wfs breaking_env_calm example_entries_well_formed(1)
    photo_entry_facts(4) broken_photo_run_eq
  show ?thesis by blast
qed

end
